theory Spec2Isabelle
  imports Main "HOL-Library.Word"
begin

section \<open>JavaScript values\<close>

text \<open>
  The strategies are JavaScript: every variable holds a dynamically typed value, and the
  code branches on truthiness. Values are modelled by one datatype. An object is the
  list of its own properties, in insertion order. What a read finds beyond the own
  properties (inherited ones, the length and the indices of strings and arrays) is left
  to the platform, see \<open>readProp\<close> below. Numbers are restricted to integers (nothing
  proved here concerns a number). Error objects and functions are objects with the own
  properties their constructors set.
\<close>

datatype jsval =
    Undefined
  | Null
  | Bool bool
  | Num int
  | Str string
  | Obj "(string \<times> jsval) list"
  | Arr "jsval list"

type_synonym props = "(string \<times> jsval) list"

text \<open>\<open>if (v)\<close>, \<open>!v\<close>: the falsy values are undefined, null, false, 0 and the empty string.\<close>

fun truthy :: "jsval \<Rightarrow> bool" where
  "truthy Undefined = False"
| "truthy Null = False"
| "truthy (Bool b) = b"
| "truthy (Num n) = (n \<noteq> 0)"
| "truthy (Str s) = (s \<noteq> [])"
| "truthy (Obj kvs) = True"
| "truthy (Arr vs) = True"

text \<open>\<open>a || b\<close> and \<open>a && b\<close> return one of their operands.\<close>

definition js_or :: "jsval \<Rightarrow> jsval \<Rightarrow> jsval" where
  "js_or a b = (if truthy a then a else b)"

definition js_and :: "jsval \<Rightarrow> jsval \<Rightarrow> jsval" where
  "js_and a b = (if truthy a then b else a)"

text \<open>
  \<open>own v k\<close> is the property read \<open>v.k\<close> on a receiver that is neither undefined nor
  null, for a name \<open>k\<close> that is no inherited or built-in property name: an own property
  of an object, and \<open>undefined\<close> otherwise.
  \<open>getProp v k\<close> is the unguarded read \<open>v.k\<close>, which throws a TypeError on
  undefined and null.
\<close>

fun own :: "jsval \<Rightarrow> string \<Rightarrow> jsval" where
  "own (Obj kvs) k = (case map_of kvs k of Some v \<Rightarrow> v | None \<Rightarrow> Undefined)"
| "own v k = Undefined"

fun hasOwn :: "jsval \<Rightarrow> string \<Rightarrow> bool" where
  "hasOwn (Obj kvs) k = (map_of kvs k \<noteq> None)"
| "hasOwn v k = False"

definition TypeError :: jsval where
  "TypeError = Obj [(''name'', Str ''TypeError'')]"

definition getProp :: "jsval \<Rightarrow> string \<Rightarrow> jsval + jsval" where
  "getProp v k = (if v = Undefined \<or> v = Null then Inl TypeError else Inr (own v k))"

text \<open>\<open>o && o[k]\<close>: the read is guarded by the truthiness of the receiver.\<close>

definition guarded :: "jsval \<Rightarrow> string \<Rightarrow> jsval" where
  "guarded v k = js_and v (own v k)"

text \<open>
  A read with a configured name, \<open>o[this._field]\<close>, can also find a property that the
  receiver does not carry itself: one that it inherits from its prototype (\<open>constructor\<close>,
  \<open>toString\<close>), or one that is built into a string or an array (\<open>length\<close>). What the
  platform yields for such a name is a parameter, \<open>builtin v k\<close>, of which nothing is
  assumed. Reads with a name that is fixed in the source (\<open>body\<close>, \<open>user\<close>,
  \<open>access_token\<close>, \<open>data\<close>, \<open>id\<close> and so on) use \<open>own\<close>: none of these names is
  inherited or built in.
\<close>

definition readProp :: "(jsval \<Rightarrow> string \<Rightarrow> jsval) \<Rightarrow> jsval \<Rightarrow> string \<Rightarrow> jsval" where
  "readProp builtin v k =
     (case v of
        Obj kvs \<Rightarrow> (case map_of kvs k of Some x \<Rightarrow> x | None \<Rightarrow> builtin v k)
      | _ \<Rightarrow> builtin v k)"

text \<open>\<open>o && o[this._field]\<close>\<close>

definition guardedRead :: "(jsval \<Rightarrow> string \<Rightarrow> jsval) \<Rightarrow> jsval \<Rightarrow> string \<Rightarrow> jsval" where
  "guardedRead builtin v k = js_and v (readProp builtin v k)"

text \<open>\<open>o[k] = v\<close> on an object: an existing property keeps its place, a new one is added.\<close>

fun put :: "string \<Rightarrow> jsval \<Rightarrow> props \<Rightarrow> props" where
  "put k v [] = [(k, v)]"
| "put k v ((k', v') # kvs) = (if k' = k then (k, v) # kvs else (k', v') # put k v kvs)"

fun assign :: "jsval \<Rightarrow> string \<Rightarrow> jsval \<Rightarrow> jsval" where
  "assign (Obj kvs) k v = Obj (put k v kvs)"
| "assign x k v = x"

text \<open>\<open>new InternalOAuthError(message, err)\<close> of passport-oauth sets three own properties.\<close>

definition InternalOAuthError :: "jsval \<Rightarrow> jsval \<Rightarrow> jsval" where
  "InternalOAuthError message err =
     Obj [(''name'', Str ''InternalOAuthError''), (''message'', message), (''oauthError'', err)]"

section \<open>Observable behaviour\<close>

text \<open>
  The strategies are written in callback style and report to their host through
  \<open>this.fail\<close>, \<open>this.error\<close> and \<open>this.success\<close>. A run is modelled by the list of
  the calls it makes on its collaborators, in order. A collaborator that takes a callback
  is a function from its arguments and the callback to the events that follow.
\<close>

datatype event =
    Failed jsval
  | Errored jsval
  | Succeeded jsval jsval
  | LoadUserProfile jsval
  | VerifyCall "jsval list"
  | OAuth2Get string string
  | JwtVerify jsval jsval
  | Done jsval jsval
  | Thrown jsval

type_synonym trace = "event list"

type_synonym loader = "jsval \<Rightarrow> (jsval \<Rightarrow> jsval \<Rightarrow> trace) \<Rightarrow> trace"

type_synonym verifier = "jsval list \<Rightarrow> (jsval \<Rightarrow> jsval \<Rightarrow> jsval \<Rightarrow> trace) \<Rightarrow> trace"

type_synonym getter = "string \<Rightarrow> string \<Rightarrow> (jsval \<Rightarrow> jsval \<Rightarrow> jsval \<Rightarrow> trace) \<Rightarrow> trace"

type_synonym jwt_verifier = "jsval \<Rightarrow> jsval \<Rightarrow> (jsval \<Rightarrow> jsval \<Rightarrow> trace) \<Rightarrow> trace"

text \<open>
  A \<open>try\<close> block is a computation that returns \<open>Inl e\<close> when it throws \<open>e\<close>;
  \<open>bindE\<close> sequences two of them.
\<close>

definition bindE :: "jsval + 'a \<Rightarrow> ('a \<Rightarrow> jsval + 'b) \<Rightarrow> jsval + 'b" where
  "bindE m f = (case m of Inl e \<Rightarrow> Inl e | Inr x \<Rightarrow> f x)"

text \<open>The chained read \<open>v.a.b\<close>.\<close>

definition dot2 :: "jsval \<Rightarrow> string \<Rightarrow> string \<Rightarrow> jsval + jsval" where
  "dot2 v a b = bindE (getProp v a) (\<lambda>d. getProp d b)"

section \<open>The strategies\<close>

text \<open>The instance fields of the Instagram strategy of \<open>src/index.js\<close>.\<close>

record strategy =
  name :: string
  accessTokenField :: string
  refreshTokenField :: string
  profileURL :: string
  clientSecret :: jsval
  enableProof :: bool
  passReqToCallback :: jsval

text \<open>The instance fields of the Instagram strategy of \<open>lib/Strategy.js\<close>.\<close>

record lib_strategy =
  lib_name :: string
  lib_profileURL :: string
  lib_passReqToCallback :: jsval

text \<open>The instance fields of the Apple strategy.\<close>

record apple_strategy =
  apple_name :: string
  clientID :: jsval
  identityTokenField :: string
  apple_passReqToCallback :: jsval

text \<open>
  The completion callback \<open>verified(error, user, info)\<close> handed to the application's
  verify function. The three files define it with the same body.
\<close>

definition verified :: "jsval \<Rightarrow> jsval \<Rightarrow> jsval \<Rightarrow> trace" where
  "verified error user info =
     (if truthy error then [Errored error]
      else if \<not> truthy user then [Failed info]
      else [Succeeded user info])"

text \<open>
  \<open>authenticate(req, options)\<close> of \<open>src/index.js\<close>. The request is an object. The two
  tokens are read under configured names.
\<close>

definition authenticate ::
  "strategy \<Rightarrow> (jsval \<Rightarrow> string \<Rightarrow> jsval) \<Rightarrow> loader \<Rightarrow> verifier \<Rightarrow> props \<Rightarrow> trace" where
  "authenticate self builtin loadUserProfile verify req =
     (let accessToken = js_or (guardedRead builtin (own (Obj req) ''body'') (accessTokenField self))
                              (guardedRead builtin (own (Obj req) ''query'') (accessTokenField self));
          refreshToken = js_or (guardedRead builtin (own (Obj req) ''body'') (refreshTokenField self))
                               (guardedRead builtin (own (Obj req) ''query'') (refreshTokenField self))
      in if \<not> truthy accessToken
         then [Failed (Obj [(''message'', Str (''You should provide '' @ accessTokenField self))])]
         else LoadUserProfile accessToken #
              loadUserProfile accessToken (\<lambda>error profile.
                if truthy error then [Errored error]
                else if truthy (passReqToCallback self)
                then VerifyCall [Obj req, accessToken, refreshToken, profile] #
                     verify [Obj req, accessToken, refreshToken, profile] verified
                else VerifyCall [accessToken, refreshToken, profile] #
                     verify [accessToken, refreshToken, profile] verified))"

text \<open>\<open>authenticate\<close> of \<open>lib/Strategy.js\<close>: fixed field names, and the headers are read too.\<close>

definition lib_authenticate :: "lib_strategy \<Rightarrow> loader \<Rightarrow> verifier \<Rightarrow> props \<Rightarrow> trace" where
  "lib_authenticate self loadUserProfile verify req =
     (let accessToken = js_or (js_or (guarded (own (Obj req) ''body'') ''access_token'')
                                     (guarded (own (Obj req) ''query'') ''access_token''))
                              (guarded (own (Obj req) ''headers'') ''access_token'');
          refreshToken = js_or (js_or (guarded (own (Obj req) ''body'') ''refresh_token'')
                                      (guarded (own (Obj req) ''query'') ''refresh_token''))
                               (guarded (own (Obj req) ''headers'') ''refresh_token'')
      in if \<not> truthy accessToken
         then [Failed (Obj [(''message'', Str ''You should provide access_token'')])]
         else LoadUserProfile accessToken #
              loadUserProfile accessToken (\<lambda>error profile.
                if truthy error then [Errored error]
                else if truthy (lib_passReqToCallback self)
                then VerifyCall [Obj req, accessToken, refreshToken, profile] #
                     verify [Obj req, accessToken, refreshToken, profile] verified
                else VerifyCall [accessToken, refreshToken, profile] #
                     verify [accessToken, refreshToken, profile] verified))"

text \<open>
  \<open>authenticate\<close> of the Apple strategy. The identity token is read under a configured
  name, the user data under the fixed name \<open>user\<close>. \<open>JSON_parse\<close> is the platform's
  \<open>JSON.parse\<close>: \<open>Inl e\<close> when it throws \<open>e\<close>. A \<open>user\<close> that is a string is parsed,
  and a parse failure leaves it as it was.
\<close>

definition apple_authenticate ::
  "apple_strategy \<Rightarrow> (jsval \<Rightarrow> string \<Rightarrow> jsval) \<Rightarrow> (jsval \<Rightarrow> jsval + jsval) \<Rightarrow> loader \<Rightarrow> verifier \<Rightarrow>
   props \<Rightarrow> trace" where
  "apple_authenticate self builtin JSON_parse loadUserProfile verify req =
     (let identityToken =
            js_or (guardedRead builtin (own (Obj req) ''body'') (identityTokenField self))
                  (guardedRead builtin (own (Obj req) ''query'') (identityTokenField self));
          user0 = js_or (guarded (own (Obj req) ''body'') ''user'')
                        (guarded (own (Obj req) ''query'') ''user'')
      in if \<not> truthy identityToken
         then [Failed (Obj [(''message'', Str (''You should provide '' @ identityTokenField self))])]
         else
           let user = (case user0 of
                         Str s \<Rightarrow> (case JSON_parse user0 of Inr v \<Rightarrow> v | Inl e \<Rightarrow> user0)
                       | _ \<Rightarrow> user0);
               data = Obj [(''identityToken'', identityToken), (''user'', user)]
           in LoadUserProfile data #
              loadUserProfile data (\<lambda>error profile.
                if truthy error then [Errored error]
                else if truthy (apple_passReqToCallback self)
                then VerifyCall [Obj req, Undefined, Undefined, profile] #
                     verify [Obj req, Undefined, Undefined, profile] verified
                else VerifyCall [Undefined, Undefined, profile] #
                     verify [Undefined, Undefined, profile] verified))"

section \<open>Fetching and normalising the profile\<close>

text \<open>
  \<open>digest('hex')\<close>: two lower-case hexadecimal digits for each byte of the digest.
\<close>

definition hexDigit :: "nat \<Rightarrow> char" where
  "hexDigit n = ''0123456789abcdef'' ! (n mod 16)"

definition hex :: "8 word list \<Rightarrow> string" where
  "hex bs = concat (map (\<lambda>b. [hexDigit (unat b div 16), hexDigit (unat b mod 16)]) bs)"

text \<open>
  \<open>encodeURIComponent\<close> on a string of bytes: letters, digits and
  \<open>- _ . ! ~ * ' ( )\<close> stand for themselves, every other byte becomes \<open>%XX\<close>.
\<close>

definition uriUnescaped :: string where
  "uriUnescaped =
     ''ABCDEFGHIJKLMNOPQRSTUVWXYZabcdefghijklmnopqrstuvwxyz0123456789-_.!~*()'' @ [CHR 0x27]"

definition upperHexDigit :: "nat \<Rightarrow> char" where
  "upperHexDigit n = ''0123456789ABCDEF'' ! (n mod 16)"

definition encodeURIComponent :: "string \<Rightarrow> string" where
  "encodeURIComponent s =
     concat (map (\<lambda>c. if c \<in> set uriUnescaped then [c]
                       else [CHR ''%'', upperHexDigit (of_char c div 16),
                             upperHexDigit (of_char c mod 16)]) s)"

text \<open>
  The body of the \<open>try\<close> block of \<open>userProfile\<close> up to the call of \<open>done\<close>, the same
  in \<open>src/index.js\<close> and \<open>lib/Strategy.js\<close>: the response body is parsed, the parsed
  object gets the property \<open>id\<close>, and the profile is built from it.
\<close>

definition parseProfile :: "(jsval \<Rightarrow> jsval + jsval) \<Rightarrow> jsval \<Rightarrow> jsval + jsval" where
  "parseProfile JSON_parse body =
     bindE (JSON_parse body) (\<lambda>json0.
     bindE (dot2 json0 ''data'' ''id'') (\<lambda>i.
     let json = assign json0 ''id'' i in
     bindE (getProp json ''id'') (\<lambda>id.
     bindE (dot2 json ''data'' ''username'') (\<lambda>username.
     bindE (dot2 json ''data'' ''full_name'') (\<lambda>full_name.
     bindE (dot2 json ''data'' ''last_name'') (\<lambda>last_name.
     bindE (dot2 json ''data'' ''first_name'') (\<lambda>first_name.
     bindE (dot2 json ''data'' ''profile_picture'') (\<lambda>profile_picture.
     Inr (Obj [(''provider'', Str ''instagram''),
               (''id'', id),
               (''username'', username),
               (''displayName'', js_or full_name (Str [])),
               (''name'', Obj [(''familyName'', js_or last_name (Str [])),
                               (''givenName'', js_or first_name (Str []))]),
               (''emails'', Arr []),
               (''photos'', Arr [Obj [(''value'', profile_picture)]]),
               (''_raw'', body),
               (''_json'', json)])))))))))"

text \<open>
  The callback \<open>(error, body, res)\<close> that \<open>userProfile\<close> hands to \<open>this._oauth2.get\<close>,
  the same in both files. \<open>done(e)\<close> passes no second argument. The calls of \<open>done\<close>
  stand inside the \<open>try\<close> blocks; \<open>done\<close> is taken to return, so that the \<open>catch\<close>
  blocks see the exceptions of the parsing only.
\<close>

definition profileResponse ::
  "(jsval \<Rightarrow> jsval + jsval) \<Rightarrow> (jsval \<Rightarrow> jsval \<Rightarrow> trace) \<Rightarrow> jsval \<Rightarrow> jsval \<Rightarrow> jsval \<Rightarrow> trace" where
  "profileResponse JSON_parse done error body res =
     (if truthy error then
        (case bindE (JSON_parse (own error ''data'')) (\<lambda>errorJSON.
              bindE (dot2 errorJSON ''meta'' ''error_message'') (\<lambda>error_message.
              bindE (dot2 errorJSON ''meta'' ''code'') (\<lambda>code.
              Inr (InternalOAuthError error_message code)))) of
           Inr e \<Rightarrow> done e Undefined
         | Inl _ \<Rightarrow> done (InternalOAuthError (Str ''Failed to fetch user profile'') error) Undefined)
      else (case parseProfile JSON_parse body of
              Inr profile \<Rightarrow> done Null profile
            | Inl e \<Rightarrow> done e Undefined))"

text \<open>
  \<open>userProfile(accessToken, done)\<close> of \<open>src/index.js\<close>. \<open>createHmac key msg\<close> is
  \<open>crypto.createHmac('sha256', key).update(msg)\<close>: the bytes of the digest, or \<open>Inl e\<close> when
  the library throws \<open>e\<close> (an exception that leaves \<open>userProfile\<close>).
\<close>

definition userProfile ::
  "strategy \<Rightarrow> (jsval \<Rightarrow> string \<Rightarrow> jsval + 8 word list) \<Rightarrow> (jsval \<Rightarrow> jsval + jsval) \<Rightarrow> getter \<Rightarrow>
   string \<Rightarrow> (jsval \<Rightarrow> jsval \<Rightarrow> trace) \<Rightarrow> trace" where
  "userProfile self createHmac JSON_parse oauth2_get accessToken done =
     (if enableProof self then
        (let token = ''/users/self|access_token='' @ accessToken in
         case createHmac (clientSecret self) token of
           Inl e \<Rightarrow> [Thrown e]
         | Inr digest \<Rightarrow>
             let proof = hex digest;
                 url = profileURL self @ ''?sig='' @ encodeURIComponent proof
             in OAuth2Get url accessToken #
                oauth2_get url accessToken (profileResponse JSON_parse done))
      else OAuth2Get (profileURL self) accessToken #
           oauth2_get (profileURL self) accessToken (profileResponse JSON_parse done))"

text \<open>\<open>userProfile\<close> of \<open>lib/Strategy.js\<close>: the URL is the profile URL as it is.\<close>

definition lib_userProfile ::
  "lib_strategy \<Rightarrow> (jsval \<Rightarrow> jsval + jsval) \<Rightarrow> getter \<Rightarrow> string \<Rightarrow> (jsval \<Rightarrow> jsval \<Rightarrow> trace) \<Rightarrow> trace" where
  "lib_userProfile self JSON_parse oauth2_get accessToken done =
     OAuth2Get (lib_profileURL self) accessToken #
     oauth2_get (lib_profileURL self) accessToken (profileResponse JSON_parse done)"

text \<open>
  The profile the Apple strategy builds from the verified claims and the user-supplied
  name data. \<open>JSON_stringify\<close> is the platform's \<open>JSON.stringify\<close>.
\<close>

definition apple_profile :: "(jsval \<Rightarrow> jsval) \<Rightarrow> jsval \<Rightarrow> jsval \<Rightarrow> jsval + jsval" where
  "apple_profile JSON_stringify user jwtClaims =
     bindE (getProp jwtClaims ''sub'') (\<lambda>sub.
     let profile = Obj [(''provider'', Str ''apple''),
                        (''id'', sub),
                        (''emails'', Arr [Obj [(''value'', own jwtClaims ''email'')]]),
                        (''emailVerified'', Bool (own jwtClaims ''email_verified'' = Str ''true'')),
                        (''isPrivateEmail'', Bool (own jwtClaims ''is_private_email'' = Str ''true'')),
                        (''_raw'', JSON_stringify jwtClaims),
                        (''_json'', jwtClaims)]
     in Inr (if truthy user \<and> truthy (js_or (own user ''lastName'') (own user ''firstName''))
             then
               let name0 = Obj [];
                   name1 = (if truthy (own user ''lastName'')
                            then assign name0 ''familyName'' (own user ''lastName'') else name0);
                   name2 = (if truthy (own user ''firstName'')
                            then assign name1 ''givenName'' (own user ''firstName'') else name1)
               in assign profile ''name'' name2
             else profile))"

text \<open>
  \<open>userProfile(data, done)\<close> of the Apple strategy. \<open>jwt_verify token opts cb\<close> is
  \<open>jwt.verify(token, getAppleJWKSKey, opts, cb)\<close> of the jsonwebtoken library.
\<close>

definition apple_userProfile ::
  "apple_strategy \<Rightarrow> jwt_verifier \<Rightarrow> (jsval \<Rightarrow> jsval) \<Rightarrow> jsval \<Rightarrow> (jsval \<Rightarrow> jsval \<Rightarrow> trace) \<Rightarrow> trace" where
  "apple_userProfile self jwt_verify JSON_stringify data done =
     (case bindE (getProp data ''identityToken'') (\<lambda>t.
           bindE (getProp data ''user'') (\<lambda>u. Inr (t, u))) of
        Inl e \<Rightarrow> [Thrown e]
      | Inr (identityToken, user) \<Rightarrow>
          let verifyOpts = Obj [(''audience'', clientID self),
                                (''issuer'', Str ''https://appleid.apple.com''),
                                (''algorithms'', Arr [Str ''RS256''])]
          in JwtVerify identityToken verifyOpts #
             jwt_verify identityToken verifyOpts (\<lambda>err jwtClaims.
               if truthy err
               then done (InternalOAuthError (Str ''Failed to validate identity token'') err) Undefined
               else (case apple_profile JSON_stringify user jwtClaims of
                       Inl e \<Rightarrow> [Thrown e]
                     | Inr profile \<Rightarrow> done Null profile)))"

section \<open>Construction\<close>

text \<open>
  \<open>options.x || 'default'\<close> for an option that is documented as a string. A truthy value
  of another type is outside the documented configuration and is read as the default.
\<close>

definition str_option :: "jsval \<Rightarrow> string \<Rightarrow> string" where
  "str_option v d = (case js_or v (Str d) of Str s \<Rightarrow> s | _ \<Rightarrow> d)"

text \<open>
  The constructor of \<open>src/index.js\<close>. The caller passes an options object or nothing;
  \<open>base\<close> is the constructor of the base class \<open>OAuth2Strategy\<close>, which may throw.
  The result is the options object as the constructor leaves it, and the error thrown
  or the instance.
\<close>

definition construct ::
  "(props \<Rightarrow> jsval option) \<Rightarrow> props option \<Rightarrow> props \<times> (jsval + strategy)" where
  "construct base opts =
     (let options0 = (case opts of Some kvs \<Rightarrow> kvs | None \<Rightarrow> []);
          options1 = put ''authorizationURL''
                       (js_or (own (Obj options0) ''authorizationURL'')
                              (Str ''https://api.instagram.com/oauth/authorize/'')) options0;
          options = put ''tokenURL''
                      (js_or (own (Obj options1) ''tokenURL'')
                             (Str ''https://api.instagram.com/oauth/access_token'')) options1
      in (options,
          case base options of
            Some e \<Rightarrow> Inl e
          | None \<Rightarrow> Inr \<lparr>
              name = ''instagram-token'',
              accessTokenField = str_option (own (Obj options) ''accessTokenField'') ''access_token'',
              refreshTokenField = str_option (own (Obj options) ''refreshTokenField'') ''refresh_token'',
              profileURL = str_option (own (Obj options) ''profileURL'')
                             ''https://api.instagram.com/v1/users/self'',
              clientSecret = own (Obj options) ''clientSecret'',
              enableProof = (case own (Obj options) ''enableProof'' of Bool b \<Rightarrow> b | _ \<Rightarrow> True),
              passReqToCallback = own (Obj options) ''passReqToCallback'' \<rparr>))"

text \<open>The constructor of \<open>lib/Strategy.js\<close>, which also writes the profile URL.\<close>

definition lib_construct ::
  "(props \<Rightarrow> jsval option) \<Rightarrow> props option \<Rightarrow> props \<times> (jsval + lib_strategy)" where
  "lib_construct base opts =
     (let options0 = (case opts of Some kvs \<Rightarrow> kvs | None \<Rightarrow> []);
          options1 = put ''authorizationURL''
                       (js_or (own (Obj options0) ''authorizationURL'')
                              (Str ''https://api.instagram.com/oauth/authorize/'')) options0;
          options2 = put ''tokenURL''
                       (js_or (own (Obj options1) ''tokenURL'')
                              (Str ''https://api.instagram.com/oauth/access_token'')) options1;
          options = put ''profileURL''
                      (js_or (own (Obj options2) ''profileURL'')
                             (Str ''https://api.instagram.com/v1/users/self'')) options2
      in (options,
          case base options of
            Some e \<Rightarrow> Inl e
          | None \<Rightarrow> Inr \<lparr>
              lib_name = ''instagram-token'',
              lib_profileURL = str_option (own (Obj options) ''profileURL'') [],
              lib_passReqToCallback = own (Obj options) ''passReqToCallback'' \<rparr>))"

section \<open>Collaborators of the unit tests\<close>

text \<open>
  The unit tests replace the collaborators by stubs that call back at once with fixed
  arguments (\<open>sinon.stub(...).yields(...)\<close>, \<open>strategy._oauth2.get = function (url,
  accessToken, next) { next(null, fakeProfile, null); }\<close>), and their verify functions
  answer \<open>next(null, profile, {info: 'foo'})\<close>.
\<close>

definition yields :: "jsval \<Rightarrow> jsval \<Rightarrow> loader" where
  "yields error profile = (\<lambda>arg cb. cb error profile)"

definition get_yields :: "jsval \<Rightarrow> jsval \<Rightarrow> jsval \<Rightarrow> getter" where
  "get_yields error body res = (\<lambda>url accessToken cb. cb error body res)"

definition jwt_yields :: "jsval \<Rightarrow> jsval \<Rightarrow> jwt_verifier" where
  "jwt_yields err jwtClaims = (\<lambda>token opts cb. cb err jwtClaims)"

definition verify_next :: verifier where
  "verify_next = (\<lambda>args next. next Null (last args) (Obj [(''info'', Str ''foo'')]))"

definition record_done :: "jsval \<Rightarrow> jsval \<Rightarrow> trace" where
  "record_done e profile = [Done e profile]"

definition SyntaxError :: jsval where
  "SyntaxError = Obj [(''name'', Str ''SyntaxError'')]"

text \<open>A \<open>JSON.parse\<close> that knows the texts of a table and throws on every other argument.\<close>

definition JSON_parse_table :: "(jsval \<times> jsval) list \<Rightarrow> jsval \<Rightarrow> jsval + jsval" where
  "JSON_parse_table tbl text = (case map_of tbl text of Some v \<Rightarrow> Inr v | None \<Rightarrow> Inl SyntaxError)"

text \<open>
  The one digest the unit tests record: the request URL they expect for the client secret
  \<open>'123'\<close> and the access token \<open>'accessToken'\<close> ends in these 32 bytes, in hexadecimal.
\<close>

definition createHmac_recorded :: "jsval \<Rightarrow> string \<Rightarrow> jsval + 8 word list" where
  "createHmac_recorded key msg =
     (if key = Str ''123'' \<and> msg = ''/users/self|access_token=accessToken''
      then Inr [0x73, 0x93, 0xbd, 0x65, 0x33, 0xba, 0xe3, 0x9c, 0x66, 0xe7, 0x20, 0x28,
                0x0e, 0xeb, 0x57, 0x29, 0x8c, 0xfd, 0x3b, 0x76, 0x49, 0xff, 0x63, 0xea,
                0xa7, 0x6d, 0x02, 0xda, 0x70, 0xad, 0x8d, 0x45]
      else Inl TypeError)"

text \<open>The options of the unit tests and the instances built from them.\<close>

definition STRATEGY_CONFIG :: props where
  "STRATEGY_CONFIG = [(''clientID'', Str ''123''), (''clientSecret'', Str ''123'')]"

definition base_ok :: "props \<Rightarrow> jsval option" where
  "base_ok options = None"

definition instagram :: strategy where
  "instagram = \<lparr> name = ''instagram-token'', accessTokenField = ''access_token'',
       refreshTokenField = ''refresh_token'',
       profileURL = ''https://api.instagram.com/v1/users/self'',
       clientSecret = Str ''123'', enableProof = True, passReqToCallback = Undefined \<rparr>"

definition instagram_lib :: lib_strategy where
  "instagram_lib = \<lparr> lib_name = ''instagram-token'',
       lib_profileURL = ''https://api.instagram.com/v1/users/self'',
       lib_passReqToCallback = Undefined \<rparr>"

definition apple :: apple_strategy where
  "apple = \<lparr> apple_name = ''apple-token'', clientID = Str ''123'',
       identityTokenField = ''id_token'', apple_passReqToCallback = Undefined \<rparr>"

text \<open>
  What a plain object inherits from \<open>Object.prototype\<close>: functions, which are objects
  with a name. \<open>{}.constructor\<close> is the function \<open>Object\<close>.
\<close>

definition Object_prototype :: "jsval \<Rightarrow> string \<Rightarrow> jsval" where
  "Object_prototype v k =
     (case v of
        Obj kvs \<Rightarrow>
          (if k = ''constructor'' then Obj [(''name'', Str ''Object'')]
           else if k \<in> set [''toString'', ''toLocaleString'', ''valueOf'', ''hasOwnProperty'',
                             ''isPrototypeOf'', ''propertyIsEnumerable'']
           then Obj [(''name'', Str k)]
           else Undefined)
      | _ \<Rightarrow> Undefined)"

text \<open>A profile response of the provider, as text and parsed.\<close>

definition fakeProfile_text :: jsval where
  \<open>fakeProfile_text = Str ''{"data":{"id":"1234567","username":"ghaiklor","full_name":"Eugene Obrezkov","first_name":"Eugene","last_name":"Obrezkov","profile_picture":"http://distillery.s3.amazonaws.com/profiles/profile_1574083_75sq_1295469061.jpg"}}''\<close>

definition fakeProfile :: jsval where
  "fakeProfile = Obj [(''data'', Obj [
       (''id'', Str ''1234567''),
       (''username'', Str ''ghaiklor''),
       (''full_name'', Str ''Eugene Obrezkov''),
       (''first_name'', Str ''Eugene''),
       (''last_name'', Str ''Obrezkov''),
       (''profile_picture'',
        Str ''http://distillery.s3.amazonaws.com/profiles/profile_1574083_75sq_1295469061.jpg'')])]"

text \<open>A response with an \<open>id\<close> only, and the texts of two sets of claims.\<close>

definition data_id_text :: jsval where
  \<open>data_id_text = Str ''{"data":{"id":"1234567"}}''\<close>

definition sub_text :: jsval where
  \<open>sub_text = Str ''{"sub":"001"}''\<close>

definition claims_text :: jsval where
  \<open>claims_text = Str ''{"sub":"001","email":"eugene@example.org","email_verified":true,"is_private_email":"true"}''\<close>

text \<open>A \<open>JSON.stringify\<close> that knows the values of a table.\<close>

definition JSON_stringify_table :: "(jsval \<times> jsval) list \<Rightarrow> jsval \<Rightarrow> jsval" where
  "JSON_stringify_table tbl v = (case map_of tbl v of Some s \<Rightarrow> s | None \<Rightarrow> Undefined)"

definition stringified :: "(jsval \<times> jsval) list" where
  "stringified =
     [(Obj [(''sub'', Str ''001'')], sub_text),
      (Obj [(''sub'', Str ''001''), (''email'', Str ''eugene@example.org''),
            (''email_verified'', Bool True), (''is_private_email'', Str ''true'')], claims_text)]"

section \<open>The words of the specification\<close>

text \<open>
  A request supplies a field in one of its parts (\<open>body\<close>, \<open>query\<close>, \<open>headers\<close>) when the
  part is there and holds a truthy value under the field's name; for string values,
  truthy is non-empty. \<open>first_supplied\<close> is the value of the first part, in the given
  order, that supplies the field.
\<close>

definition supplied :: "props \<Rightarrow> string \<Rightarrow> string \<Rightarrow> bool" where
  "supplied req part f = (truthy (own (Obj req) part) \<and> truthy (own (own (Obj req) part) f))"

definition first_supplied :: "props \<Rightarrow> string list \<Rightarrow> string \<Rightarrow> jsval option" where
  "first_supplied req parts f =
     map_option (\<lambda>part. own (own (Obj req) part) f) (find (\<lambda>part. supplied req part f) parts)"

text \<open>
  A part of a request yields a field when the part is there and a read of the field on it
  gives a truthy value, be the property the part's own or not. \<open>first_read\<close> is the
  value that the first such part gives, in the given order.
\<close>

definition readable :: "(jsval \<Rightarrow> string \<Rightarrow> jsval) \<Rightarrow> props \<Rightarrow> string \<Rightarrow> string \<Rightarrow> bool" where
  "readable builtin req part f =
     (truthy (own (Obj req) part) \<and> truthy (readProp builtin (own (Obj req) part) f))"

definition first_read ::
  "(jsval \<Rightarrow> string \<Rightarrow> jsval) \<Rightarrow> props \<Rightarrow> string list \<Rightarrow> string \<Rightarrow> jsval option" where
  "first_read builtin req parts f =
     map_option (\<lambda>part. readProp builtin (own (Obj req) part) f)
       (find (\<lambda>part. readable builtin req part f) parts)"

section \<open>Basic facts\<close>

lemma truthy_js_or: "truthy (js_or a b) = (truthy a \<or> truthy b)"
  by (simp add: js_or_def)

lemma truthy_guarded: "truthy (guarded v k) = (truthy v \<and> truthy (own v k))"
  by (simp add: guarded_def js_and_def)

lemma guarded_supplied: "truthy (guarded (own (Obj req) part) f) = supplied req part f"
  by (simp add: supplied_def truthy_guarded)

lemma guarded_value:
  "supplied req part f \<Longrightarrow> guarded (own (Obj req) part) f = own (own (Obj req) part) f"
  by (simp add: supplied_def guarded_def js_and_def)

lemma first_supplied2:
  assumes "first_supplied req [p, q] f = Some v"
  shows "js_or (guarded (own (Obj req) p) f) (guarded (own (Obj req) q) f) = v \<and> truthy v"
proof (cases "supplied req p f")
  case True
  with assms show ?thesis
    using guarded_value[OF True] guarded_supplied[of req p f]
    by (auto simp add: first_supplied_def js_or_def simp del: own.simps)
next
  case False
  with assms have q: "supplied req q f" and v: "v = own (own (Obj req) q) f"
    by (auto simp add: first_supplied_def split: if_splits)
  show ?thesis
    using False guarded_value[OF q] guarded_supplied[of req p f] guarded_supplied[of req q f] q v
    by (auto simp add: js_or_def simp del: own.simps)
qed

lemma first_supplied3:
  assumes "first_supplied req [p, q, r] f = Some v"
  shows "js_or (js_or (guarded (own (Obj req) p) f) (guarded (own (Obj req) q) f))
               (guarded (own (Obj req) r) f) = v \<and> truthy v"
proof (cases "supplied req p f \<or> supplied req q f")
  case True
  then have "first_supplied req [p, q] f = Some v"
    using assms by (auto simp add: first_supplied_def split: if_splits)
  from first_supplied2[OF this] show ?thesis
    by (simp add: js_or_def del: own.simps)
next
  case False
  with assms have r: "supplied req r f" and v: "v = own (own (Obj req) r) f"
    by (auto simp add: first_supplied_def split: if_splits)
  show ?thesis
    using False guarded_value[OF r] guarded_supplied[of req p f] guarded_supplied[of req q f]
      guarded_supplied[of req r f] r v
    by (auto simp add: js_or_def simp del: own.simps)
qed

lemma truthy_guardedRead:
  "truthy (guardedRead builtin v k) = (truthy v \<and> truthy (readProp builtin v k))"
  by (simp add: guardedRead_def js_and_def)

lemma guardedRead_readable:
  "truthy (guardedRead builtin (own (Obj req) part) f) = readable builtin req part f"
  by (simp add: readable_def truthy_guardedRead)

lemma guardedRead_value:
  "readable builtin req part f \<Longrightarrow>
   guardedRead builtin (own (Obj req) part) f = readProp builtin (own (Obj req) part) f"
  by (simp add: readable_def guardedRead_def js_and_def)

lemma first_read2:
  assumes "first_read builtin req [p, q] f = Some v"
  shows "js_or (guardedRead builtin (own (Obj req) p) f)
               (guardedRead builtin (own (Obj req) q) f) = v \<and> truthy v"
proof (cases "readable builtin req p f")
  case True
  with assms show ?thesis
    using guardedRead_value[OF True] guardedRead_readable[of builtin req p f]
    by (auto simp add: first_read_def js_or_def simp del: own.simps)
next
  case False
  with assms have q: "readable builtin req q f"
    and v: "v = readProp builtin (own (Obj req) q) f"
    by (auto simp add: first_read_def split: if_splits)
  show ?thesis
    using False guardedRead_value[OF q] guardedRead_readable[of builtin req p f]
      guardedRead_readable[of builtin req q f] q v
    by (auto simp add: js_or_def simp del: own.simps)
qed

lemma first_read2_None:
  assumes "first_read builtin req [p, q] f = None"
  shows "\<not> truthy (js_or (guardedRead builtin (own (Obj req) p) f)
                        (guardedRead builtin (own (Obj req) q) f))"
  using assms
  by (auto simp add: first_read_def truthy_js_or guardedRead_readable split: if_splits
      simp del: own.simps)

lemma first_supplied3_None:
  assumes "first_supplied req [p, q, r] f = None"
  shows "\<not> truthy (js_or (js_or (guarded (own (Obj req) p) f) (guarded (own (Obj req) q) f))
                        (guarded (own (Obj req) r) f))"
  using assms
  by (auto simp add: first_supplied_def truthy_js_or guarded_supplied split: if_splits
      simp del: own.simps)

lemma readProp_own: "(\<forall>v. builtin v k = Undefined) \<Longrightarrow> readProp builtin v k = own v k"
  by (cases v) (simp_all add: readProp_def split: option.splits)

lemma stringify_sub:
  "JSON_stringify_table stringified (Obj [(''sub'', Str ''001'')]) = sub_text"
  by (simp add: JSON_stringify_table_def stringified_def)

lemma construct_STRATEGY_CONFIG:
  "snd (construct base_ok (Some STRATEGY_CONFIG)) = Inr instagram"
  by (simp add: construct_def STRATEGY_CONFIG_def base_ok_def instagram_def str_option_def
      js_or_def Let_def)

lemma lib_construct_STRATEGY_CONFIG:
  "snd (lib_construct base_ok (Some STRATEGY_CONFIG)) = Inr instagram_lib"
  by (simp add: lib_construct_def STRATEGY_CONFIG_def base_ok_def instagram_lib_def str_option_def
      js_or_def Let_def)

lemma map_of_put: "map_of (put k v kvs) = (map_of kvs)(k \<mapsto> v)"
  by (induction kvs) auto

lemma own_put: "own (Obj (put k v kvs)) k' = (if k' = k then v else own (Obj kvs) k')"
  by (simp add: map_of_put)

lemma hexDigit_unescaped: "hexDigit n \<in> set uriUnescaped"
proof -
  have "n mod 16 < length ''0123456789abcdef''" by simp
  then have "hexDigit n \<in> set ''0123456789abcdef''"
    unfolding hexDigit_def by (rule nth_mem)
  then show ?thesis by (auto simp add: uriUnescaped_def)
qed

lemma encode_unescaped: "set s \<subseteq> set uriUnescaped \<Longrightarrow> encodeURIComponent s = s"
  by (induction s) (auto simp add: encodeURIComponent_def)

lemma encode_hex: "encodeURIComponent (hex d) = hex d"
  by (rule encode_unescaped) (auto simp add: hex_def hexDigit_unescaped)

section \<open>The completion callback\<close>

text \<open>
  Claim C4, as the code has it. The completion callback \<open>verified\<close> tests its arguments
  for truthiness: a truthy error gives the error outcome with that error; a falsy error
  (null, undefined, false, 0 or the empty string) with a falsy user gives the fail outcome
  with the info unchanged; a falsy error with a truthy user gives the success outcome
  with user and info unchanged. Every call produces exactly one outcome.
\<close>

theorem verified_outcome:
  "(truthy error \<longrightarrow> verified error user info = [Errored error]) \<and>
   (\<not> truthy error \<and> \<not> truthy user \<longrightarrow> verified error user info = [Failed info]) \<and>
   (\<not> truthy error \<and> truthy user \<longrightarrow> verified error user info = [Succeeded user info]) \<and>
   length (verified error user info) = 1"
  by (simp add: verified_def)

theorem verified_outcome_witness:
  "verified (Str ''ERROR'') (Str ''user'') (Str ''info'') = [Errored (Str ''ERROR'')] \<and>
   verified Null (Bool False) (Str ''info'') = [Failed (Str ''info'')] \<and>
   verified Null (Str ''user'') (Str ''info'') = [Succeeded (Str ''user'') (Str ''info'')]"
  using verified_outcome[of "Str ''ERROR''" "Str ''user''" "Str ''info''"]
    verified_outcome[of Null "Bool False" "Str ''info''"]
    verified_outcome[of Null "Str ''user''" "Str ''info''"]
  by simp

text \<open>
  Claim C4 as it is written speaks of a non-null error. The error \<open>false\<close> is not null
  (and not undefined), and \<open>verified(false, 'user', 'info')\<close> reports success, not an
  error.
\<close>

theorem verified_non_null_counterexample:
  "Bool False \<noteq> Null \<and> Bool False \<noteq> Undefined \<and>
   verified (Bool False) (Str ''user'') (Str ''info'') = [Succeeded (Str ''user'') (Str ''info'')]"
  by (simp add: verified_def)

section \<open>Extracting the token\<close>

lemma truthy_fakeProfile: "truthy fakeProfile"
  by (simp add: fakeProfile_def)

lemma refresh_read2:
  "(case first_read builtin req [p, q] f of
      Some x \<Rightarrow> js_or (guardedRead builtin (own (Obj req) p) f)
                      (guardedRead builtin (own (Obj req) q) f) = x
    | None \<Rightarrow> \<not> truthy (js_or (guardedRead builtin (own (Obj req) p) f)
                               (guardedRead builtin (own (Obj req) q) f)))"
proof (cases "first_read builtin req [p, q] f")
  case None
  then show ?thesis using first_read2_None[OF None] by simp
next
  case (Some x)
  then show ?thesis using first_read2[OF Some] by simp
qed

lemma refresh_supplied3:
  "(case first_supplied req [p, q, r] f of
      Some x \<Rightarrow> js_or (js_or (guarded (own (Obj req) p) f) (guarded (own (Obj req) q) f))
                      (guarded (own (Obj req) r) f) = x
    | None \<Rightarrow> \<not> truthy (js_or (js_or (guarded (own (Obj req) p) f)
                                      (guarded (own (Obj req) q) f))
                               (guarded (own (Obj req) r) f)))"
proof (cases "first_supplied req [p, q, r] f")
  case None
  then show ?thesis using first_supplied3_None[OF None] by simp
next
  case (Some x)
  then show ?thesis using first_supplied3[OF Some] by simp
qed

text \<open>
  Claim C1, as the code has it. A request whose body and query (and, in
  \<open>lib/Strategy.js\<close>, whose headers) yield no truthy value for the primary token field
  ends in the fail outcome with the message \<open>You should provide <fieldName>\<close>, and that
  is the whole run: whatever the profile loader and the verify function would do, neither
  is called, so no profile is fetched and no request leaves the process. The field name is
  the configured \<open>accessTokenField\<close> in \<open>src/index.js\<close>, the fixed \<open>access_token\<close> in
  \<open>lib/Strategy.js\<close> and the configured \<open>identityTokenField\<close> in the Apple strategy.
  A part yields the field also when it only inherits a property of that name. For a field
  name that the platform gives to no value, a part yields the field exactly when it
  supplies it: the field is there and not empty.
\<close>

theorem missing_token_fails:
  "(\<not> readable builtin req ''body'' (accessTokenField self) \<and>
    \<not> readable builtin req ''query'' (accessTokenField self) \<longrightarrow>
      authenticate self builtin load verify req =
        [Failed (Obj [(''message'', Str (''You should provide '' @ accessTokenField self))])]) \<and>
   (\<not> supplied req ''body'' ''access_token'' \<and> \<not> supplied req ''query'' ''access_token'' \<and>
    \<not> supplied req ''headers'' ''access_token'' \<longrightarrow>
      lib_authenticate lself load verify req =
        [Failed (Obj [(''message'', Str ''You should provide access_token'')])]) \<and>
   (\<not> readable builtin req ''body'' (identityTokenField aself) \<and>
    \<not> readable builtin req ''query'' (identityTokenField aself) \<longrightarrow>
      apple_authenticate aself builtin JSON_parse load verify req =
        [Failed (Obj [(''message'', Str (''You should provide '' @ identityTokenField aself))])]) \<and>
   ((\<forall>v. builtin v f = Undefined) \<longrightarrow> readable builtin req part f = supplied req part f)"
proof (intro conjI impI)
  assume "\<not> readable builtin req ''body'' (accessTokenField self) \<and>
    \<not> readable builtin req ''query'' (accessTokenField self)"
  then show "authenticate self builtin load verify req =
        [Failed (Obj [(''message'', Str (''You should provide '' @ accessTokenField self))])]"
    by (simp add: authenticate_def Let_def truthy_js_or guardedRead_readable del: own.simps)
next
  assume "\<not> supplied req ''body'' ''access_token'' \<and> \<not> supplied req ''query'' ''access_token'' \<and>
    \<not> supplied req ''headers'' ''access_token''"
  then show "lib_authenticate lself load verify req =
        [Failed (Obj [(''message'', Str ''You should provide access_token'')])]"
    by (simp add: lib_authenticate_def Let_def truthy_js_or guarded_supplied del: own.simps)
next
  assume "\<not> readable builtin req ''body'' (identityTokenField aself) \<and>
    \<not> readable builtin req ''query'' (identityTokenField aself)"
  then show "apple_authenticate aself builtin JSON_parse load verify req =
        [Failed (Obj [(''message'', Str (''You should provide '' @ identityTokenField aself))])]"
    by (simp add: apple_authenticate_def Let_def truthy_js_or guardedRead_readable del: own.simps)
next
  assume "\<forall>v. builtin v f = Undefined"
  then show "readable builtin req part f = supplied req part f"
    by (simp add: readable_def supplied_def readProp_own del: own.simps)
qed

theorem missing_token_fails_witness:
  "authenticate instagram Object_prototype (yields Null fakeProfile) verify_next
     [(''body'', Obj [])] =
     [Failed (Obj [(''message'', Str ''You should provide access_token'')])] \<and>
   lib_authenticate instagram_lib (yields Null fakeProfile) verify_next [] =
     [Failed (Obj [(''message'', Str ''You should provide access_token'')])] \<and>
   apple_authenticate apple Object_prototype (JSON_parse_table []) (yields Null fakeProfile)
     verify_next [(''query'', Obj [(''id_token'', Str [])])] =
     [Failed (Obj [(''message'', Str ''You should provide id_token'')])]"
proof -
  have 1: "\<not> readable Object_prototype [(''body'', Obj [])] ''body'' (accessTokenField instagram) \<and>
      \<not> readable Object_prototype [(''body'', Obj [])] ''query'' (accessTokenField instagram)"
    by (simp add: readable_def readProp_def Object_prototype_def instagram_def)
  have 2: "\<not> supplied [] ''body'' ''access_token'' \<and> \<not> supplied [] ''query'' ''access_token'' \<and>
      \<not> supplied [] ''headers'' ''access_token''"
    by (simp add: supplied_def)
  have 3: "\<not> readable Object_prototype [(''query'', Obj [(''id_token'', Str [])])] ''body''
              (identityTokenField apple) \<and>
      \<not> readable Object_prototype [(''query'', Obj [(''id_token'', Str [])])] ''query''
              (identityTokenField apple)"
    by (simp add: readable_def readProp_def Object_prototype_def apple_def)
  note t = missing_token_fails[where builtin = Object_prototype and load = "yields Null fakeProfile"
      and verify = verify_next and self = instagram and lself = instagram_lib and aself = apple
      and JSON_parse = "JSON_parse_table []"]
  from t[where req = "[(''body'', Obj [])]", THEN conjunct1, THEN mp, OF 1]
    t[where req = "[]", THEN conjunct2, THEN conjunct1, THEN mp, OF 2]
    t[where req = "[(''query'', Obj [(''id_token'', Str [])])]", THEN conjunct2, THEN conjunct2,
      THEN conjunct1, THEN mp, OF 3]
  show ?thesis by (simp add: instagram_def apple_def)
qed

text \<open>
  Claim C1 as it is written lets every request fail in which the configured field is
  absent or empty. With the field name \<open>constructor\<close> and the empty body \<open>{}\<close> no part of
  the request supplies the field, but the body inherits a \<open>constructor\<close>, the function
  \<open>Object\<close>: \<open>src/index.js\<close> takes it as the access token and the Apple strategy as the
  identity token, and both load the profile and call the verify function.
\<close>

theorem inherited_field_counterexample:
  "\<not> supplied [(''body'', Obj [])] ''body'' ''constructor'' \<and>
   \<not> supplied [(''body'', Obj [])] ''query'' ''constructor'' \<and>
   \<not> supplied [(''body'', Obj [])] ''headers'' ''constructor'' \<and>
   authenticate (instagram\<lparr>accessTokenField := ''constructor''\<rparr>) Object_prototype
     (yields Null fakeProfile) verify_next [(''body'', Obj [])] =
     [LoadUserProfile (Obj [(''name'', Str ''Object'')]),
      VerifyCall [Obj [(''name'', Str ''Object'')], Undefined, fakeProfile],
      Succeeded fakeProfile (Obj [(''info'', Str ''foo'')])] \<and>
   apple_authenticate (apple\<lparr>identityTokenField := ''constructor''\<rparr>) Object_prototype
     (JSON_parse_table []) (yields Null fakeProfile) verify_next [(''body'', Obj [])] =
     [LoadUserProfile (Obj [(''identityToken'', Obj [(''name'', Str ''Object'')]),
                            (''user'', Undefined)]),
      VerifyCall [Undefined, Undefined, fakeProfile],
      Succeeded fakeProfile (Obj [(''info'', Str ''foo'')])]"
  by (simp add: supplied_def instagram_def apple_def authenticate_def apple_authenticate_def
      guardedRead_def guarded_def readProp_def Object_prototype_def js_or_def js_and_def Let_def
      yields_def verify_next_def verified_def truthy_fakeProfile)

text \<open>
  Claim C2, as the code has it. Let \<open>v\<close> be the value that the first part of the request
  yields for the access token field, the parts being the body and then the query in
  \<open>src/index.js\<close> and the body, the query and then the headers in \<open>lib/Strategy.js\<close>.
  When the profile loader calls back once without an error, \<open>v\<close> is the argument of the
  loader and the access token argument of the verify function, unchanged: the first
  argument, or the second one after the request when \<open>passReqToCallback\<close> is set; the
  refresh token argument is the value that the first part yields for the refresh token
  field, and a falsy value when no part does. When the loader calls back with an error,
  the run ends in the error outcome with that error and the verify function is not
  called. In \<open>src/index.js\<close> a request whose body and query yield no value for the field
  fails as one without a token, whatever its headers hold.
\<close>

theorem token_passed_to_verify:
  "(first_read builtin req [''body'', ''query''] (accessTokenField self) = Some v \<and>
    \<not> truthy error \<and> (\<forall>k. load v k = k error profile) \<longrightarrow>
      truthy v \<and>
      (\<exists>r. (case first_read builtin req [''body'', ''query''] (refreshTokenField self) of
               Some x \<Rightarrow> r = x | None \<Rightarrow> \<not> truthy r) \<and>
            authenticate self builtin load verify req =
              LoadUserProfile v #
              VerifyCall ((if truthy (passReqToCallback self) then [Obj req] else []) @
                          [v, r, profile]) #
              verify ((if truthy (passReqToCallback self) then [Obj req] else []) @
                      [v, r, profile]) verified)) \<and>
   (first_supplied req [''body'', ''query'', ''headers''] ''access_token'' = Some v \<and>
    \<not> truthy error \<and> (\<forall>k. load v k = k error profile) \<longrightarrow>
      truthy v \<and>
      (\<exists>r. (case first_supplied req [''body'', ''query'', ''headers''] ''refresh_token'' of
               Some x \<Rightarrow> r = x | None \<Rightarrow> \<not> truthy r) \<and>
            lib_authenticate lself load verify req =
              LoadUserProfile v #
              VerifyCall ((if truthy (lib_passReqToCallback lself) then [Obj req] else []) @
                          [v, r, profile]) #
              verify ((if truthy (lib_passReqToCallback lself) then [Obj req] else []) @
                      [v, r, profile]) verified)) \<and>
   (first_read builtin req [''body'', ''query''] (accessTokenField self) = Some v \<and>
    truthy error \<and> (\<forall>k. load v k = k error profile) \<longrightarrow>
      authenticate self builtin load verify req = [LoadUserProfile v, Errored error]) \<and>
   (first_supplied req [''body'', ''query'', ''headers''] ''access_token'' = Some v \<and>
    truthy error \<and> (\<forall>k. load v k = k error profile) \<longrightarrow>
      lib_authenticate lself load verify req = [LoadUserProfile v, Errored error]) \<and>
   (first_read builtin req [''body'', ''query''] (accessTokenField self) = None \<longrightarrow>
      authenticate self builtin load verify req =
        [Failed (Obj [(''message'', Str (''You should provide '' @ accessTokenField self))])])"
proof (intro conjI impI)
  assume a: "first_read builtin req [''body'', ''query''] (accessTokenField self) = Some v \<and>
    \<not> truthy error \<and> (\<forall>k. load v k = k error profile)"
  from a first_read2
  have tok: "js_or (guardedRead builtin (own (Obj req) ''body'') (accessTokenField self))
                   (guardedRead builtin (own (Obj req) ''query'') (accessTokenField self)) = v"
    and t: "truthy v"
    by blast+
  show "truthy v" by (rule t)
  let ?r = "js_or (guardedRead builtin (own (Obj req) ''body'') (refreshTokenField self))
                  (guardedRead builtin (own (Obj req) ''query'') (refreshTokenField self))"
  have r: "(case first_read builtin req [''body'', ''query''] (refreshTokenField self) of
               Some x \<Rightarrow> ?r = x | None \<Rightarrow> \<not> truthy ?r)"
    by (rule refresh_read2)
  have run: "authenticate self builtin load verify req =
              LoadUserProfile v #
              VerifyCall ((if truthy (passReqToCallback self) then [Obj req] else []) @
                          [v, ?r, profile]) #
              verify ((if truthy (passReqToCallback self) then [Obj req] else []) @
                      [v, ?r, profile]) verified"
    using a t by (simp add: authenticate_def Let_def tok del: own.simps)
  from r run show "\<exists>r. (case first_read builtin req [''body'', ''query''] (refreshTokenField self) of
               Some x \<Rightarrow> r = x | None \<Rightarrow> \<not> truthy r) \<and>
            authenticate self builtin load verify req =
              LoadUserProfile v #
              VerifyCall ((if truthy (passReqToCallback self) then [Obj req] else []) @
                          [v, r, profile]) #
              verify ((if truthy (passReqToCallback self) then [Obj req] else []) @
                      [v, r, profile]) verified"
    by blast
next
  assume a: "first_supplied req [''body'', ''query'', ''headers''] ''access_token'' = Some v \<and>
    \<not> truthy error \<and> (\<forall>k. load v k = k error profile)"
  from a first_supplied3
  have tok: "js_or (js_or (guarded (own (Obj req) ''body'') ''access_token'')
                          (guarded (own (Obj req) ''query'') ''access_token''))
                   (guarded (own (Obj req) ''headers'') ''access_token'') = v"
    and t: "truthy v"
    by blast+
  show "truthy v" by (rule t)
  let ?r = "js_or (js_or (guarded (own (Obj req) ''body'') ''refresh_token'')
                         (guarded (own (Obj req) ''query'') ''refresh_token''))
                  (guarded (own (Obj req) ''headers'') ''refresh_token'')"
  have r: "(case first_supplied req [''body'', ''query'', ''headers''] ''refresh_token'' of
               Some x \<Rightarrow> ?r = x | None \<Rightarrow> \<not> truthy ?r)"
    by (rule refresh_supplied3)
  have run: "lib_authenticate lself load verify req =
              LoadUserProfile v #
              VerifyCall ((if truthy (lib_passReqToCallback lself) then [Obj req] else []) @
                          [v, ?r, profile]) #
              verify ((if truthy (lib_passReqToCallback lself) then [Obj req] else []) @
                      [v, ?r, profile]) verified"
    using a t by (simp add: lib_authenticate_def Let_def tok del: own.simps)
  from r run show "\<exists>r. (case first_supplied req [''body'', ''query'', ''headers''] ''refresh_token'' of
               Some x \<Rightarrow> r = x | None \<Rightarrow> \<not> truthy r) \<and>
            lib_authenticate lself load verify req =
              LoadUserProfile v #
              VerifyCall ((if truthy (lib_passReqToCallback lself) then [Obj req] else []) @
                          [v, r, profile]) #
              verify ((if truthy (lib_passReqToCallback lself) then [Obj req] else []) @
                      [v, r, profile]) verified"
    by blast
next
  assume a: "first_read builtin req [''body'', ''query''] (accessTokenField self) = Some v \<and>
    truthy error \<and> (\<forall>k. load v k = k error profile)"
  from a first_read2
  have tok: "js_or (guardedRead builtin (own (Obj req) ''body'') (accessTokenField self))
                   (guardedRead builtin (own (Obj req) ''query'') (accessTokenField self)) = v"
    and t: "truthy v"
    by blast+
  show "authenticate self builtin load verify req = [LoadUserProfile v, Errored error]"
    using a t by (simp add: authenticate_def Let_def tok del: own.simps)
next
  assume a: "first_supplied req [''body'', ''query'', ''headers''] ''access_token'' = Some v \<and>
    truthy error \<and> (\<forall>k. load v k = k error profile)"
  from a first_supplied3
  have tok: "js_or (js_or (guarded (own (Obj req) ''body'') ''access_token'')
                          (guarded (own (Obj req) ''query'') ''access_token''))
                   (guarded (own (Obj req) ''headers'') ''access_token'') = v"
    and t: "truthy v"
    by blast+
  show "lib_authenticate lself load verify req = [LoadUserProfile v, Errored error]"
    using a t by (simp add: lib_authenticate_def Let_def tok del: own.simps)
next
  assume "first_read builtin req [''body'', ''query''] (accessTokenField self) = None"
  from first_read2_None[OF this]
  show "authenticate self builtin load verify req =
        [Failed (Obj [(''message'', Str (''You should provide '' @ accessTokenField self))])]"
    by (simp add: authenticate_def Let_def del: own.simps)
qed

theorem token_passed_to_verify_witness:
  "authenticate instagram Object_prototype (yields Null fakeProfile) verify_next
     [(''query'', Obj [(''access_token'', Str ''access_token''),
                       (''refresh_token'', Str ''refresh_token'')])] =
     [LoadUserProfile (Str ''access_token''),
      VerifyCall [Str ''access_token'', Str ''refresh_token'', fakeProfile],
      Succeeded fakeProfile (Obj [(''info'', Str ''foo'')])] \<and>
   lib_authenticate instagram_lib (yields Null fakeProfile) verify_next
     [(''headers'', Obj [(''access_token'', Str ''access_token''),
                         (''refresh_token'', Str ''refresh_token'')])] =
     [LoadUserProfile (Str ''access_token''),
      VerifyCall [Str ''access_token'', Str ''refresh_token'', fakeProfile],
      Succeeded fakeProfile (Obj [(''info'', Str ''foo'')])] \<and>
   lib_authenticate instagram_lib (yields (Str ''ERROR'') Undefined) verify_next
     [(''headers'', Obj [(''access_token'', Str ''access_token'')])] =
     [LoadUserProfile (Str ''access_token''), Errored (Str ''ERROR'')] \<and>
   authenticate instagram Object_prototype (yields (Str ''ERROR'') Undefined) verify_next
     [(''body'', Obj [(''access_token'', Str ''access_token'')])] =
     [LoadUserProfile (Str ''access_token''), Errored (Str ''ERROR'')] \<and>
   authenticate instagram Object_prototype (yields Null fakeProfile) verify_next
     [(''headers'', Obj [(''access_token'', Str ''access_token'')])] =
     [Failed (Obj [(''message'', Str ''You should provide access_token'')])]"
proof -
  let ?q = "[(''query'', Obj [(''access_token'', Str ''access_token''),
                              (''refresh_token'', Str ''refresh_token'')])]"
  let ?h = "[(''headers'', Obj [(''access_token'', Str ''access_token''),
                                (''refresh_token'', Str ''refresh_token'')])]"
  let ?h1 = "[(''headers'', Obj [(''access_token'', Str ''access_token'')])]"
  let ?b = "[(''body'', Obj [(''access_token'', Str ''access_token'')])]"
  note rd = first_read_def readable_def readProp_def Object_prototype_def instagram_def
  note sp = first_supplied_def supplied_def
  have 1: "first_read Object_prototype ?q [''body'', ''query''] (accessTokenField instagram) =
        Some (Str ''access_token'') \<and>
      \<not> truthy Null \<and> (\<forall>k. yields Null fakeProfile (Str ''access_token'') k = k Null fakeProfile)"
    by (simp add: rd yields_def)
  have 2: "first_supplied ?h [''body'', ''query'', ''headers''] ''access_token'' =
        Some (Str ''access_token'') \<and>
      \<not> truthy Null \<and> (\<forall>k. yields Null fakeProfile (Str ''access_token'') k = k Null fakeProfile)"
    by (simp add: sp yields_def)
  have 3: "first_read Object_prototype ?b [''body'', ''query''] (accessTokenField instagram) =
        Some (Str ''access_token'') \<and>
      truthy (Str ''ERROR'') \<and>
      (\<forall>k. yields (Str ''ERROR'') Undefined (Str ''access_token'') k = k (Str ''ERROR'') Undefined)"
    by (simp add: rd yields_def)
  have 4: "first_supplied ?h1 [''body'', ''query'', ''headers''] ''access_token'' =
        Some (Str ''access_token'') \<and>
      truthy (Str ''ERROR'') \<and>
      (\<forall>k. yields (Str ''ERROR'') Undefined (Str ''access_token'') k = k (Str ''ERROR'') Undefined)"
    by (simp add: sp yields_def)
  have 5: "first_read Object_prototype ?h1 [''body'', ''query''] (accessTokenField instagram) = None"
    by (simp add: rd)
  note t = token_passed_to_verify[where builtin = Object_prototype and self = instagram
      and lself = instagram_lib and verify = verify_next and v = "Str ''access_token''"]
  from t[where req = ?q and load = "yields Null fakeProfile" and error = Null
      and profile = fakeProfile, THEN conjunct1, THEN mp, OF 1]
  obtain r where r: "(case first_read Object_prototype ?q [''body'', ''query'']
                             (refreshTokenField instagram) of
               Some x \<Rightarrow> r = x | None \<Rightarrow> \<not> truthy r)"
    and run1: "authenticate instagram Object_prototype (yields Null fakeProfile) verify_next ?q =
              LoadUserProfile (Str ''access_token'') #
              VerifyCall ((if truthy (passReqToCallback instagram) then [Obj ?q] else []) @
                          [Str ''access_token'', r, fakeProfile]) #
              verify_next ((if truthy (passReqToCallback instagram) then [Obj ?q] else []) @
                      [Str ''access_token'', r, fakeProfile]) verified"
    by blast
  from r have "r = Str ''refresh_token''" by (simp add: rd)
  with run1 have c1: "authenticate instagram Object_prototype (yields Null fakeProfile) verify_next ?q =
     [LoadUserProfile (Str ''access_token''),
      VerifyCall [Str ''access_token'', Str ''refresh_token'', fakeProfile],
      Succeeded fakeProfile (Obj [(''info'', Str ''foo'')])]"
    by (simp add: instagram_def verify_next_def verified_def truthy_fakeProfile)
  from t[where req = ?h and load = "yields Null fakeProfile" and error = Null
      and profile = fakeProfile, THEN conjunct2, THEN conjunct1, THEN mp, OF 2]
  obtain r' where r': "(case first_supplied ?h [''body'', ''query'', ''headers''] ''refresh_token'' of
               Some x \<Rightarrow> r' = x | None \<Rightarrow> \<not> truthy r')"
    and run2: "lib_authenticate instagram_lib (yields Null fakeProfile) verify_next ?h =
              LoadUserProfile (Str ''access_token'') #
              VerifyCall ((if truthy (lib_passReqToCallback instagram_lib) then [Obj ?h] else []) @
                          [Str ''access_token'', r', fakeProfile]) #
              verify_next ((if truthy (lib_passReqToCallback instagram_lib) then [Obj ?h] else []) @
                      [Str ''access_token'', r', fakeProfile]) verified"
    by blast
  from r' have "r' = Str ''refresh_token''" by (simp add: sp)
  with run2 have c2: "lib_authenticate instagram_lib (yields Null fakeProfile) verify_next ?h =
     [LoadUserProfile (Str ''access_token''),
      VerifyCall [Str ''access_token'', Str ''refresh_token'', fakeProfile],
      Succeeded fakeProfile (Obj [(''info'', Str ''foo'')])]"
    by (simp add: instagram_lib_def verify_next_def verified_def truthy_fakeProfile)
  note c3 = t[where req = ?h1 and load = "yields (Str ''ERROR'') Undefined"
      and error = "Str ''ERROR''" and profile = Undefined,
      THEN conjunct2, THEN conjunct2, THEN conjunct2, THEN conjunct1, THEN mp, OF 4]
  note c4 = t[where req = ?b and load = "yields (Str ''ERROR'') Undefined"
      and error = "Str ''ERROR''" and profile = Undefined,
      THEN conjunct2, THEN conjunct2, THEN conjunct1, THEN mp, OF 3]
  from t[where req = ?h1 and load = "yields Null fakeProfile",
      THEN conjunct2, THEN conjunct2, THEN conjunct2, THEN conjunct2, THEN mp, OF 5]
  have c5: "authenticate instagram Object_prototype (yields Null fakeProfile) verify_next ?h1 =
     [Failed (Obj [(''message'', Str ''You should provide access_token'')])]"
    by (simp add: instagram_def)
  from c1 c2 c3 c4 c5 show ?thesis by blast
qed

text \<open>
  Claim C2 as it is written counts the headers among the places of every strategy, and
  promises the call of the verify function for every request with a token. In
  \<open>src/index.js\<close> a request whose only token is in the headers fails as one without a
  token, and a request whose profile load reports an error ends in the error outcome
  without a call of the verify function.
\<close>

theorem headers_token_counterexample:
  "first_supplied [(''headers'', Obj [(''access_token'', Str ''access_token'')])]
     [''body'', ''query'', ''headers''] (accessTokenField instagram) = Some (Str ''access_token'') \<and>
   authenticate instagram Object_prototype (yields Null fakeProfile) verify_next
     [(''headers'', Obj [(''access_token'', Str ''access_token'')])] =
     [Failed (Obj [(''message'', Str ''You should provide access_token'')])] \<and>
   authenticate instagram Object_prototype (yields (Str ''ERROR'') Undefined) verify_next
     [(''body'', Obj [(''access_token'', Str ''access_token'')])] =
     [LoadUserProfile (Str ''access_token''), Errored (Str ''ERROR'')]"
  by (simp add: first_supplied_def supplied_def instagram_def yields_def authenticate_def
      guardedRead_def readProp_def Object_prototype_def js_or_def js_and_def)

section \<open>The request for the profile\<close>

text \<open>
  Claim C3. With \<open>enableProof\<close> set, \<open>userProfile\<close> of \<open>src/index.js\<close> requests the
  configured profile URL followed by \<open>?sig=\<close> and the digest in hexadecimal, where the
  digest is the HMAC-SHA256, keyed by the configured client secret, of
  \<open>/users/self|access_token=\<close> followed by the access token as it is. The digest is
  passed through \<open>encodeURIComponent\<close>, which leaves hexadecimal digits as they are.
  The signature depends on the client secret and the access token only: two instances
  with the same secret and profile URL make the same request for the same token, whatever
  their other collaborators. Without \<open>enableProof\<close> the URL is the profile URL with
  nothing added, and \<open>lib/Strategy.js\<close>, which has no such option, always requests the
  profile URL as it is.
\<close>

theorem proof_signature:
  "(enableProof self \<and>
    createHmac (clientSecret self) (''/users/self|access_token='' @ accessToken) = Inr digest \<longrightarrow>
      userProfile self createHmac JSON_parse oauth2_get accessToken cb =
        OAuth2Get (profileURL self @ ''?sig='' @ hex digest) accessToken #
        oauth2_get (profileURL self @ ''?sig='' @ hex digest) accessToken
          (profileResponse JSON_parse cb)) \<and>
   (enableProof self \<and> enableProof self' \<and> clientSecret self' = clientSecret self \<and>
    profileURL self' = profileURL self \<and>
    createHmac (clientSecret self) (''/users/self|access_token='' @ accessToken) = Inr digest \<longrightarrow>
      hd (userProfile self' createHmac JSON_parse' oauth2_get' accessToken cb') =
      hd (userProfile self createHmac JSON_parse oauth2_get accessToken cb)) \<and>
   (\<not> enableProof self \<longrightarrow>
      userProfile self createHmac JSON_parse oauth2_get accessToken cb =
        OAuth2Get (profileURL self) accessToken #
        oauth2_get (profileURL self) accessToken (profileResponse JSON_parse cb)) \<and>
   lib_userProfile lself JSON_parse oauth2_get accessToken cb =
     OAuth2Get (lib_profileURL lself) accessToken #
     oauth2_get (lib_profileURL lself) accessToken (profileResponse JSON_parse cb)"
  by (simp add: userProfile_def lib_userProfile_def Let_def encode_hex)

text \<open>
  The unit tests expect this URL for the client secret \<open>'123'\<close> and the access token
  \<open>'accessToken'\<close>.
\<close>

theorem proof_signature_witness:
  "hd (userProfile instagram createHmac_recorded (JSON_parse_table []) (get_yields Null fakeProfile_text Null)
         ''accessToken'' record_done) =
     OAuth2Get ''https://api.instagram.com/v1/users/self?sig=7393bd6533bae39c66e720280eeb57298cfd3b7649ff63eaa76d02da70ad8d45''
       ''accessToken'' \<and>
   hd (userProfile (instagram\<lparr>enableProof := False\<rparr>) createHmac_recorded (JSON_parse_table [])
         (get_yields Null fakeProfile_text Null) ''accessToken'' record_done) =
     OAuth2Get ''https://api.instagram.com/v1/users/self'' ''accessToken''"
  using proof_signature[where self = instagram and createHmac = createHmac_recorded
      and accessToken = "''accessToken''" and JSON_parse = "JSON_parse_table []"
      and oauth2_get = "get_yields Null fakeProfile_text Null" and cb = record_done
      and digest = "[0x73, 0x93, 0xbd, 0x65, 0x33, 0xba, 0xe3, 0x9c, 0x66, 0xe7, 0x20, 0x28,
                0x0e, 0xeb, 0x57, 0x29, 0x8c, 0xfd, 0x3b, 0x76, 0x49, 0xff, 0x63, 0xea,
                0xa7, 0x6d, 0x02, 0xda, 0x70, 0xad, 0x8d, 0x45]"
      and self' = instagram and lself = instagram_lib]
    proof_signature[where self = "instagram\<lparr>enableProof := False\<rparr>" and createHmac = createHmac_recorded
      and accessToken = "''accessToken''" and JSON_parse = "JSON_parse_table []"
      and oauth2_get = "get_yields Null fakeProfile_text Null" and cb = record_done
      and lself = instagram_lib]
  by (simp add: instagram_def createHmac_recorded_def hex_def hexDigit_def)

section \<open>The OAuth2 profile\<close>

lemma dot2_data:
  "own (Obj payload) ''data'' = Obj d \<Longrightarrow> dot2 (Obj payload) ''data'' k = Inr (own (Obj d) k)"
  by (simp add: dot2_def getProp_def bindE_def del: own.simps)

lemma parseProfile_data:
  assumes "JSON_parse body = Inr (Obj payload)" and d: "own (Obj payload) ''data'' = Obj d"
  shows "parseProfile JSON_parse body =
     Inr (Obj [(''provider'', Str ''instagram''),
               (''id'', own (Obj d) ''id''),
               (''username'', own (Obj d) ''username''),
               (''displayName'', js_or (own (Obj d) ''full_name'') (Str [])),
               (''name'', Obj [(''familyName'', js_or (own (Obj d) ''last_name'') (Str [])),
                               (''givenName'', js_or (own (Obj d) ''first_name'') (Str []))]),
               (''emails'', Arr []),
               (''photos'', Arr [Obj [(''value'', own (Obj d) ''profile_picture'')]]),
               (''_raw'', body),
               (''_json'', Obj (put ''id'' (own (Obj d) ''id'') payload))])"
proof -
  have d': "own (Obj (put ''id'' (own (Obj d) ''id'') payload)) ''data'' = Obj d"
    using d by (simp add: own_put del: own.simps)
  have i: "getProp (Obj (put ''id'' (own (Obj d) ''id'') payload)) ''id'' = Inr (own (Obj d) ''id'')"
    by (simp add: getProp_def own_put del: own.simps)
  show ?thesis
    unfolding parseProfile_def
    by (simp add: assms(1) dot2_data[OF d] dot2_data[OF d'] i bindE_def Let_def del: own.simps)
qed

text \<open>
  Claim C5. Let the response body parse to an object whose \<open>data\<close> is an object with
  strings for \<open>first_name\<close> and \<open>last_name\<close>, and let the transport report no error.
  Then \<open>userProfile\<close> (of both files) calls \<open>done(null, profile)\<close> with a profile whose
  \<open>provider\<close> is \<open>instagram\<close>, whose \<open>id\<close> and \<open>username\<close> are those of \<open>data\<close>,
  whose \<open>emails\<close> is the empty list, whose \<open>photos\<close> is the one-element list holding
  \<open>data.profile_picture\<close>, whose \<open>name\<close> has \<open>data.last_name\<close> as family name and
  \<open>data.first_name\<close> as given name, whose \<open>_raw\<close> is the body and whose \<open>_json\<close> is
  the parsed object: it holds \<open>data\<close> and every other parsed member unchanged, together
  with the \<open>id\<close> that the code itself adds to it. When parsing the body throws, the
  error thrown is what \<open>done\<close> receives, and the profile argument is undefined.
\<close>

theorem oauth2_profile_fields:
  "(JSON_parse body = Inr (Obj payload) \<and> own (Obj payload) ''data'' = Obj d \<and>
    own (Obj d) ''first_name'' = Str given \<and> own (Obj d) ''last_name'' = Str family \<and>
    \<not> truthy error \<longrightarrow>
      (\<exists>profile.
         parseProfile JSON_parse body = Inr profile \<and>
         profileResponse JSON_parse cb error body res = cb Null profile \<and>
         lib_userProfile lself JSON_parse (get_yields error body res) accessToken cb =
           OAuth2Get (lib_profileURL lself) accessToken # cb Null profile \<and>
         ((enableProof self \<longrightarrow>
             (\<exists>digest. createHmac (clientSecret self)
                        (''/users/self|access_token='' @ accessToken) = Inr digest)) \<longrightarrow>
            tl (userProfile self createHmac JSON_parse (get_yields error body res) accessToken cb) =
              cb Null profile) \<and>
         own profile ''provider'' = Str ''instagram'' \<and>
         own profile ''id'' = own (Obj d) ''id'' \<and>
         own profile ''username'' = own (Obj d) ''username'' \<and>
         own profile ''emails'' = Arr [] \<and>
         own profile ''photos'' = Arr [Obj [(''value'', own (Obj d) ''profile_picture'')]] \<and>
         own (own profile ''name'') ''familyName'' = Str family \<and>
         own (own profile ''name'') ''givenName'' = Str given \<and>
         own profile ''_raw'' = body \<and>
         own (own profile ''_json'') ''data'' = Obj d \<and>
         own (own profile ''_json'') ''id'' = own (Obj d) ''id'' \<and>
         (\<forall>k. k \<noteq> ''id'' \<longrightarrow> own (own profile ''_json'') k = own (Obj payload) k))) \<and>
   (JSON_parse body = Inl e \<and> \<not> truthy error \<longrightarrow>
      parseProfile JSON_parse body = Inl e \<and>
      profileResponse JSON_parse cb error body res = cb e Undefined \<and>
      lib_userProfile lself JSON_parse (get_yields error body res) accessToken cb =
        OAuth2Get (lib_profileURL lself) accessToken # cb e Undefined \<and>
      ((enableProof self \<longrightarrow>
          (\<exists>digest. createHmac (clientSecret self)
                     (''/users/self|access_token='' @ accessToken) = Inr digest)) \<longrightarrow>
         tl (userProfile self createHmac JSON_parse (get_yields error body res) accessToken cb) =
           cb e Undefined))"
proof (intro conjI impI)
  assume a: "JSON_parse body = Inr (Obj payload) \<and> own (Obj payload) ''data'' = Obj d \<and>
    own (Obj d) ''first_name'' = Str given \<and> own (Obj d) ''last_name'' = Str family \<and>
    \<not> truthy error"
  then have p: "JSON_parse body = Inr (Obj payload)" and d: "own (Obj payload) ''data'' = Obj d"
    and g: "own (Obj d) ''first_name'' = Str given" and f: "own (Obj d) ''last_name'' = Str family"
    and e: "\<not> truthy error"
    by simp_all
  let ?p = "Obj [(''provider'', Str ''instagram''),
               (''id'', own (Obj d) ''id''),
               (''username'', own (Obj d) ''username''),
               (''displayName'', js_or (own (Obj d) ''full_name'') (Str [])),
               (''name'', Obj [(''familyName'', js_or (own (Obj d) ''last_name'') (Str [])),
                               (''givenName'', js_or (own (Obj d) ''first_name'') (Str []))]),
               (''emails'', Arr []),
               (''photos'', Arr [Obj [(''value'', own (Obj d) ''profile_picture'')]]),
               (''_raw'', body),
               (''_json'', Obj (put ''id'' (own (Obj d) ''id'') payload))]"
  note pp = parseProfile_data[of JSON_parse body payload d, OF p d]
  have data: "own (Obj (put ''id'' (own (Obj d) ''id'') payload)) ''data'' = Obj d"
    using d by (simp add: own_put del: own.simps)
  show "\<exists>profile.
         parseProfile JSON_parse body = Inr profile \<and>
         profileResponse JSON_parse cb error body res = cb Null profile \<and>
         lib_userProfile lself JSON_parse (get_yields error body res) accessToken cb =
           OAuth2Get (lib_profileURL lself) accessToken # cb Null profile \<and>
         ((enableProof self \<longrightarrow>
             (\<exists>digest. createHmac (clientSecret self)
                        (''/users/self|access_token='' @ accessToken) = Inr digest)) \<longrightarrow>
            tl (userProfile self createHmac JSON_parse (get_yields error body res) accessToken cb) =
              cb Null profile) \<and>
         own profile ''provider'' = Str ''instagram'' \<and>
         own profile ''id'' = own (Obj d) ''id'' \<and>
         own profile ''username'' = own (Obj d) ''username'' \<and>
         own profile ''emails'' = Arr [] \<and>
         own profile ''photos'' = Arr [Obj [(''value'', own (Obj d) ''profile_picture'')]] \<and>
         own (own profile ''name'') ''familyName'' = Str family \<and>
         own (own profile ''name'') ''givenName'' = Str given \<and>
         own profile ''_raw'' = body \<and>
         own (own profile ''_json'') ''data'' = Obj d \<and>
         own (own profile ''_json'') ''id'' = own (Obj d) ''id'' \<and>
         (\<forall>k. k \<noteq> ''id'' \<longrightarrow> own (own profile ''_json'') k = own (Obj payload) k)"
  proof (intro exI conjI)
    show "parseProfile JSON_parse body = Inr ?p" by (rule pp)
    show "profileResponse JSON_parse cb error body res = cb Null ?p"
      by (simp add: profileResponse_def pp e)
    show "lib_userProfile lself JSON_parse (get_yields error body res) accessToken cb =
           OAuth2Get (lib_profileURL lself) accessToken # cb Null ?p"
      by (simp add: lib_userProfile_def get_yields_def profileResponse_def pp e)
    show "(enableProof self \<longrightarrow>
             (\<exists>digest. createHmac (clientSecret self)
                        (''/users/self|access_token='' @ accessToken) = Inr digest)) \<longrightarrow>
            tl (userProfile self createHmac JSON_parse (get_yields error body res) accessToken cb) =
              cb Null ?p"
      by (auto simp add: userProfile_def get_yields_def profileResponse_def pp e)
    show "own ?p ''provider'' = Str ''instagram''" by simp
    show "own ?p ''id'' = own (Obj d) ''id''" by simp
    show "own ?p ''username'' = own (Obj d) ''username''" by simp
    show "own ?p ''emails'' = Arr []" by simp
    show "own ?p ''photos'' = Arr [Obj [(''value'', own (Obj d) ''profile_picture'')]]" by simp
    show "own (own ?p ''name'') ''familyName'' = Str family"
      using f by (simp add: js_or_def)
    show "own (own ?p ''name'') ''givenName'' = Str given"
      using g by (simp add: js_or_def)
    show "own ?p ''_raw'' = body" by simp
    show "own (own ?p ''_json'') ''data'' = Obj d"
      using d by (simp add: map_of_put)
    show "own (own ?p ''_json'') ''id'' = own (Obj d) ''id''"
      by (simp add: map_of_put)
    show "\<forall>k. k \<noteq> ''id'' \<longrightarrow> own (own ?p ''_json'') k = own (Obj payload) k"
      by (simp add: map_of_put)
  qed
next
  assume a: "JSON_parse body = Inl e \<and> \<not> truthy error"
  then have pp: "parseProfile JSON_parse body = Inl e"
    by (simp add: parseProfile_def bindE_def)
  show "parseProfile JSON_parse body = Inl e" by (rule pp)
  show "profileResponse JSON_parse cb error body res = cb e Undefined"
    using a by (simp add: profileResponse_def pp)
  show "lib_userProfile lself JSON_parse (get_yields error body res) accessToken cb =
        OAuth2Get (lib_profileURL lself) accessToken # cb e Undefined"
    using a by (simp add: lib_userProfile_def get_yields_def profileResponse_def pp)
  assume "enableProof self \<longrightarrow>
          (\<exists>digest. createHmac (clientSecret self)
                     (''/users/self|access_token='' @ accessToken) = Inr digest)"
  then show "tl (userProfile self createHmac JSON_parse (get_yields error body res) accessToken cb) =
           cb e Undefined"
    using a by (auto simp add: userProfile_def get_yields_def profileResponse_def pp)
qed


theorem oauth2_profile_fields_witness:
  "(case parseProfile (JSON_parse_table [(fakeProfile_text, fakeProfile)]) fakeProfile_text of
      Inr p \<Rightarrow> [own p ''provider'', own p ''id'', own p ''username'',
                 own (own p ''name'') ''familyName'', own (own p ''name'') ''givenName'',
                 own p ''emails'', own p ''photos'', own p ''_raw'', own (own p ''_json'') ''id'']
    | Inl e \<Rightarrow> []) =
     [Str ''instagram'', Str ''1234567'', Str ''ghaiklor'',
      Str ''Obrezkov'', Str ''Eugene'', Arr [],
      Arr [Obj [(''value'', Str ''http://distillery.s3.amazonaws.com/profiles/profile_1574083_75sq_1295469061.jpg'')]],
      fakeProfile_text, Str ''1234567''] \<and>
   lib_userProfile instagram_lib (JSON_parse_table [(fakeProfile_text, fakeProfile)])
     (get_yields Null (Str ''not a JSON'') Null) ''accessToken'' record_done =
     [OAuth2Get ''https://api.instagram.com/v1/users/self'' ''accessToken'',
      Done SyntaxError Undefined]"
proof -
  let ?P = "JSON_parse_table [(fakeProfile_text, fakeProfile)]"
  let ?d = "[(''id'', Str ''1234567''),
       (''username'', Str ''ghaiklor''),
       (''full_name'', Str ''Eugene Obrezkov''),
       (''first_name'', Str ''Eugene''),
       (''last_name'', Str ''Obrezkov''),
       (''profile_picture'',
        Str ''http://distillery.s3.amazonaws.com/profiles/profile_1574083_75sq_1295469061.jpg'')]"
  have h1: "?P fakeProfile_text = Inr (Obj [(''data'', Obj ?d)]) \<and>
      own (Obj [(''data'', Obj ?d)]) ''data'' = Obj ?d \<and>
      own (Obj ?d) ''first_name'' = Str ''Eugene'' \<and> own (Obj ?d) ''last_name'' = Str ''Obrezkov'' \<and>
      \<not> truthy Null"
    by (simp add: JSON_parse_table_def fakeProfile_def)
  have h2: "?P (Str ''not a JSON'') = Inl SyntaxError \<and> \<not> truthy Null"
    by (simp add: JSON_parse_table_def fakeProfile_text_def)
  from oauth2_profile_fields[where JSON_parse = ?P and body = fakeProfile_text and error = Null
      and payload = "[(''data'', Obj ?d)]" and d = ?d and given = "''Eugene''"
      and family = "''Obrezkov''", THEN conjunct1, THEN mp, OF h1]
  obtain p where p: "parseProfile ?P fakeProfile_text = Inr p"
    and fields: "own p ''provider'' = Str ''instagram''" "own p ''id'' = own (Obj ?d) ''id''"
      "own p ''username'' = own (Obj ?d) ''username''" "own p ''emails'' = Arr []"
      "own p ''photos'' = Arr [Obj [(''value'', own (Obj ?d) ''profile_picture'')]]"
      "own (own p ''name'') ''familyName'' = Str ''Obrezkov''"
      "own (own p ''name'') ''givenName'' = Str ''Eugene''"
      "own p ''_raw'' = fakeProfile_text"
      "own (own p ''_json'') ''id'' = own (Obj ?d) ''id''"
    by blast
  from oauth2_profile_fields[where JSON_parse = ?P and body = "Str ''not a JSON''" and error = Null
      and e = SyntaxError and res = Null and lself = instagram_lib
      and accessToken = "''accessToken''" and cb = record_done, THEN conjunct2, THEN mp, OF h2]
  have bad: "lib_userProfile instagram_lib ?P (get_yields Null (Str ''not a JSON'') Null)
       ''accessToken'' record_done =
     OAuth2Get (lib_profileURL instagram_lib) ''accessToken'' # record_done SyntaxError Undefined"
    by blast
  show ?thesis
    using fields bad by (simp add: p instagram_lib_def record_done_def)
qed

section \<open>The Apple strategy\<close>

lemma own_truthy_obj: "truthy (own v k) \<Longrightarrow> truthy v"
  by (cases v) simp_all

lemma apple_profile_claims:
  "apple_profile JSON_stringify user (Obj claims) =
     Inr (let profile = Obj [(''provider'', Str ''apple''),
                        (''id'', own (Obj claims) ''sub''),
                        (''emails'', Arr [Obj [(''value'', own (Obj claims) ''email'')]]),
                        (''emailVerified'', Bool (own (Obj claims) ''email_verified'' = Str ''true'')),
                        (''isPrivateEmail'', Bool (own (Obj claims) ''is_private_email'' = Str ''true'')),
                        (''_raw'', JSON_stringify (Obj claims)),
                        (''_json'', Obj claims)]
          in if truthy (own user ''lastName'') \<or> truthy (own user ''firstName'')
             then assign profile ''name''
                    (Obj ((if truthy (own user ''lastName'')
                           then [(''familyName'', own user ''lastName'')] else []) @
                          (if truthy (own user ''firstName'')
                           then [(''givenName'', own user ''firstName'')] else [])))
             else profile)"
  using own_truthy_obj[of user "''lastName''"] own_truthy_obj[of user "''firstName''"]
  by (auto simp add: apple_profile_def getProp_def bindE_def Let_def truthy_js_or simp del: own.simps)

lemma apple_userProfile_failure:
  "truthy err \<Longrightarrow>
   apple_userProfile self (jwt_yields err jwtClaims) JSON_stringify
     (Obj [(''identityToken'', token), (''user'', user)]) cb =
   JwtVerify token (Obj [(''audience'', clientID self),
                         (''issuer'', Str ''https://appleid.apple.com''),
                         (''algorithms'', Arr [Str ''RS256''])]) #
   cb (InternalOAuthError (Str ''Failed to validate identity token'') err) Undefined"
  by (simp add: apple_userProfile_def getProp_def bindE_def jwt_yields_def Let_def)

lemma apple_userProfile_success:
  "\<not> truthy err \<Longrightarrow> apple_profile JSON_stringify user jwtClaims = Inr profile \<Longrightarrow>
   apple_userProfile self (jwt_yields err jwtClaims) JSON_stringify
     (Obj [(''identityToken'', token), (''user'', user)]) cb =
   JwtVerify token (Obj [(''audience'', clientID self),
                         (''issuer'', Str ''https://appleid.apple.com''),
                         (''algorithms'', Arr [Str ''RS256''])]) #
   cb Null profile"
  by (simp add: apple_userProfile_def getProp_def bindE_def jwt_yields_def Let_def)

lemma apple_authenticate_token:
  assumes "first_read builtin req [''body'', ''query''] (identityTokenField self) = Some token"
  shows "apple_authenticate self builtin JSON_parse load verify req =
     (let user0 = js_or (guarded (own (Obj req) ''body'') ''user'')
                        (guarded (own (Obj req) ''query'') ''user'');
          user = (case user0 of
                    Str s \<Rightarrow> (case JSON_parse user0 of Inr v \<Rightarrow> v | Inl e \<Rightarrow> user0)
                  | _ \<Rightarrow> user0);
          data = Obj [(''identityToken'', token), (''user'', user)]
      in LoadUserProfile data #
         load data (\<lambda>error profile.
           if truthy error then [Errored error]
           else if truthy (apple_passReqToCallback self)
           then VerifyCall [Obj req, Undefined, Undefined, profile] #
                verify [Obj req, Undefined, Undefined, profile] verified
           else VerifyCall [Undefined, Undefined, profile] #
                verify [Undefined, Undefined, profile] verified))"
  using first_read2[OF assms]
  by (simp add: apple_authenticate_def Let_def del: own.simps)

text \<open>
  Claim C6. When \<open>jwt.verify\<close> reports an error for the identity token, whatever the
  reason, \<open>userProfile\<close> of the Apple strategy calls \<open>done\<close> with an
  \<open>InternalOAuthError\<close> whose \<open>oauthError\<close> is that error. The token is verified
  against the configured client id as audience, the issuer \<open>https://appleid.apple.com\<close>
  and the algorithm RS256. A request with an identity token then ends in the error
  outcome with that \<open>InternalOAuthError\<close>, and the run has three events: the load of the
  profile, the verification and the error. The application's verify function is not
  called. The loader here is \<open>userProfile\<close> itself, to which the base class delegates.
\<close>

theorem verification_failure_is_error:
  "(truthy err \<longrightarrow>
      apple_userProfile self (jwt_yields err jwtClaims) JSON_stringify
        (Obj [(''identityToken'', token), (''user'', user)]) cb =
      JwtVerify token (Obj [(''audience'', clientID self),
                            (''issuer'', Str ''https://appleid.apple.com''),
                            (''algorithms'', Arr [Str ''RS256''])]) #
      cb (InternalOAuthError (Str ''Failed to validate identity token'') err) Undefined) \<and>
   own (InternalOAuthError (Str ''Failed to validate identity token'') err) ''oauthError'' = err \<and>
   (truthy err \<and>
    first_read builtin req [''body'', ''query''] (identityTokenField self) = Some token \<longrightarrow>
      (\<exists>user.
         apple_authenticate self builtin JSON_parse
           (apple_userProfile self (jwt_yields err jwtClaims) JSON_stringify) verify req =
         [LoadUserProfile (Obj [(''identityToken'', token), (''user'', user)]),
          JwtVerify token (Obj [(''audience'', clientID self),
                                (''issuer'', Str ''https://appleid.apple.com''),
                                (''algorithms'', Arr [Str ''RS256''])]),
          Errored (InternalOAuthError (Str ''Failed to validate identity token'') err)]))"
proof (intro conjI impI)
  assume "truthy err"
  then show "apple_userProfile self (jwt_yields err jwtClaims) JSON_stringify
        (Obj [(''identityToken'', token), (''user'', user)]) cb =
      JwtVerify token (Obj [(''audience'', clientID self),
                            (''issuer'', Str ''https://appleid.apple.com''),
                            (''algorithms'', Arr [Str ''RS256''])]) #
      cb (InternalOAuthError (Str ''Failed to validate identity token'') err) Undefined"
    by (rule apple_userProfile_failure)
next
  show "own (InternalOAuthError (Str ''Failed to validate identity token'') err) ''oauthError'' = err"
    by (simp add: InternalOAuthError_def)
next
  assume a: "truthy err \<and>
    first_read builtin req [''body'', ''query''] (identityTokenField self) = Some token"
  then have e: "truthy err"
    and t: "first_read builtin req [''body'', ''query''] (identityTokenField self) = Some token"
    by simp_all
  have ie: "truthy (InternalOAuthError (Str ''Failed to validate identity token'') err)"
    by (simp add: InternalOAuthError_def)
  show "\<exists>user.
         apple_authenticate self builtin JSON_parse
           (apple_userProfile self (jwt_yields err jwtClaims) JSON_stringify) verify req =
         [LoadUserProfile (Obj [(''identityToken'', token), (''user'', user)]),
          JwtVerify token (Obj [(''audience'', clientID self),
                                (''issuer'', Str ''https://appleid.apple.com''),
                                (''algorithms'', Arr [Str ''RS256''])]),
          Errored (InternalOAuthError (Str ''Failed to validate identity token'') err)]"
    by (simp add: apple_authenticate_token[OF t] Let_def apple_userProfile_failure[OF e] ie
        del: own.simps)
qed


theorem verification_failure_is_error_witness:
  "apple_authenticate apple Object_prototype (JSON_parse_table [])
     (apple_userProfile apple
        (jwt_yields (Obj [(''name'', Str ''JsonWebTokenError''),
                          (''message'', Str ''jwt audience invalid. expected: 123'')]) Undefined)
        (JSON_stringify_table stringified))
     verify_next [(''body'', Obj [(''id_token'', Str ''id_token'')])] =
   [LoadUserProfile (Obj [(''identityToken'', Str ''id_token''), (''user'', Undefined)]),
    JwtVerify (Str ''id_token'')
      (Obj [(''audience'', Str ''123''), (''issuer'', Str ''https://appleid.apple.com''),
            (''algorithms'', Arr [Str ''RS256''])]),
    Errored (Obj [(''name'', Str ''InternalOAuthError''),
                  (''message'', Str ''Failed to validate identity token''),
                  (''oauthError'', Obj [(''name'', Str ''JsonWebTokenError''),
                          (''message'', Str ''jwt audience invalid. expected: 123'')])])]"
proof -
  let ?err = "Obj [(''name'', Str ''JsonWebTokenError''),
                   (''message'', Str ''jwt audience invalid. expected: 123'')]"
  let ?req = "[(''body'', Obj [(''id_token'', Str ''id_token'')])]"
  have h: "truthy ?err \<and>
      first_read Object_prototype ?req [''body'', ''query''] (identityTokenField apple) = Some (Str ''id_token'')"
    by (simp add: first_read_def readable_def readProp_def Object_prototype_def apple_def)
  from verification_failure_is_error[where err = ?err and req = ?req and self = apple
      and builtin = Object_prototype
      and token = "Str ''id_token''" and JSON_parse = "JSON_parse_table []"
      and jwtClaims = Undefined and JSON_stringify = "JSON_stringify_table stringified" and verify = verify_next,
      THEN conjunct2, THEN conjunct2, THEN mp, OF h]
  obtain user where u: "apple_authenticate apple Object_prototype (JSON_parse_table [])
           (apple_userProfile apple (jwt_yields ?err Undefined) (JSON_stringify_table stringified)) verify_next ?req =
         [LoadUserProfile (Obj [(''identityToken'', Str ''id_token''), (''user'', user)]),
          JwtVerify (Str ''id_token'') (Obj [(''audience'', clientID apple),
                                (''issuer'', Str ''https://appleid.apple.com''),
                                (''algorithms'', Arr [Str ''RS256''])]),
          Errored (InternalOAuthError (Str ''Failed to validate identity token'') ?err)]"
    by blast
  have "hd (apple_authenticate apple Object_prototype (JSON_parse_table [])
           (apple_userProfile apple (jwt_yields ?err Undefined) (JSON_stringify_table stringified)) verify_next ?req) =
        LoadUserProfile (Obj [(''identityToken'', Str ''id_token''), (''user'', Undefined)])"
    by (simp add: apple_authenticate_def apple_def guarded_def guardedRead_def readProp_def
        Object_prototype_def js_or_def js_and_def Let_def)
  with u have "user = Undefined" by simp
  with u show ?thesis by (simp add: apple_def InternalOAuthError_def)
qed

text \<open>
  Claim C7. For claims that are an object, the Apple profile has the \<open>sub\<close> claim as
  \<open>id\<close>, one email entry holding the \<open>email\<close> claim, \<open>emailVerified\<close> true exactly when
  the \<open>email_verified\<close> claim is the string \<open>true\<close> and \<open>isPrivateEmail\<close> true exactly
  when \<open>is_private_email\<close> is the string \<open>true\<close>. The profile has a \<open>name\<close> exactly
  when the user data has a truthy \<open>lastName\<close> or \<open>firstName\<close>; the name then has a
  family name exactly when there is a last name and a given name exactly when there is a
  first name. When the verification reports no error, this profile is what \<open>done\<close>
  receives.
\<close>

theorem apple_profile_fields:
  "\<exists>profile.
     apple_profile JSON_stringify user (Obj claims) = Inr profile \<and>
     (\<not> truthy err \<longrightarrow>
        apple_userProfile self (jwt_yields err (Obj claims)) JSON_stringify
          (Obj [(''identityToken'', token), (''user'', user)]) cb =
        JwtVerify token (Obj [(''audience'', clientID self),
                              (''issuer'', Str ''https://appleid.apple.com''),
                              (''algorithms'', Arr [Str ''RS256''])]) #
        cb Null profile) \<and>
     own profile ''provider'' = Str ''apple'' \<and>
     own profile ''id'' = own (Obj claims) ''sub'' \<and>
     own profile ''emails'' = Arr [Obj [(''value'', own (Obj claims) ''email'')]] \<and>
     own profile ''emailVerified'' = Bool (own (Obj claims) ''email_verified'' = Str ''true'') \<and>
     own profile ''isPrivateEmail'' = Bool (own (Obj claims) ''is_private_email'' = Str ''true'') \<and>
     hasOwn profile ''name'' = (truthy (own user ''lastName'') \<or> truthy (own user ''firstName'')) \<and>
     hasOwn (own profile ''name'') ''familyName'' = truthy (own user ''lastName'') \<and>
     hasOwn (own profile ''name'') ''givenName'' = truthy (own user ''firstName'') \<and>
     (truthy (own user ''lastName'') \<longrightarrow>
        own (own profile ''name'') ''familyName'' = own user ''lastName'') \<and>
     (truthy (own user ''firstName'') \<longrightarrow>
        own (own profile ''name'') ''givenName'' = own user ''firstName'')"
proof -
  obtain profile where p: "apple_profile JSON_stringify user (Obj claims) = Inr profile"
    by (simp add: apple_profile_claims)
  have "\<not> truthy err \<longrightarrow>
        apple_userProfile self (jwt_yields err (Obj claims)) JSON_stringify
          (Obj [(''identityToken'', token), (''user'', user)]) cb =
        JwtVerify token (Obj [(''audience'', clientID self),
                              (''issuer'', Str ''https://appleid.apple.com''),
                              (''algorithms'', Arr [Str ''RS256''])]) #
        cb Null profile"
    using apple_userProfile_success[OF _ p] by blast
  moreover have "own profile ''provider'' = Str ''apple''"
    and "own profile ''id'' = own (Obj claims) ''sub''"
    and "own profile ''emails'' = Arr [Obj [(''value'', own (Obj claims) ''email'')]]"
    and "own profile ''emailVerified'' = Bool (own (Obj claims) ''email_verified'' = Str ''true'')"
    and "own profile ''isPrivateEmail'' = Bool (own (Obj claims) ''is_private_email'' = Str ''true'')"
    using p by (auto simp add: apple_profile_claims Let_def map_of_put split: if_splits)
  moreover have "hasOwn profile ''name'' = (truthy (own user ''lastName'') \<or> truthy (own user ''firstName''))"
    using p by (auto simp add: apple_profile_claims Let_def map_of_put split: if_splits)
  moreover have "hasOwn (own profile ''name'') ''familyName'' = truthy (own user ''lastName'')"
    and "hasOwn (own profile ''name'') ''givenName'' = truthy (own user ''firstName'')"
    using p by (auto simp add: apple_profile_claims Let_def map_of_put split: if_splits)
  moreover have "truthy (own user ''lastName'') \<longrightarrow>
        own (own profile ''name'') ''familyName'' = own user ''lastName''"
    and "truthy (own user ''firstName'') \<longrightarrow>
        own (own profile ''name'') ''givenName'' = own user ''firstName''"
    using p by (auto simp add: apple_profile_claims Let_def map_of_put split: if_splits)
  ultimately show ?thesis using p by blast
qed


theorem apple_profile_fields_witness:
  "(case apple_profile (JSON_stringify_table stringified) (Obj [(''firstName'', Str ''Eugene'')])
          (Obj [(''sub'', Str ''001''), (''email'', Str ''eugene@example.org''),
                (''email_verified'', Bool True), (''is_private_email'', Str ''true'')]) of
      Inr p \<Rightarrow> [own p ''provider'', own p ''id'', own p ''emails'', own p ''emailVerified'',
                 own p ''isPrivateEmail'', Bool (hasOwn p ''name''),
                 Bool (hasOwn (own p ''name'') ''familyName''), own (own p ''name'') ''givenName'']
    | Inl e \<Rightarrow> []) =
   [Str ''apple'', Str ''001'', Arr [Obj [(''value'', Str ''eugene@example.org'')]], Bool False,
    Bool True, Bool True, Bool False, Str ''Eugene'']"
proof -
  let ?claims = "[(''sub'', Str ''001''), (''email'', Str ''eugene@example.org''),
                (''email_verified'', Bool True), (''is_private_email'', Str ''true'')]"
  let ?user = "Obj [(''firstName'', Str ''Eugene'')]"
  from apple_profile_fields[where JSON_stringify = "JSON_stringify_table stringified" and user = ?user
      and claims = ?claims]
  obtain p where p: "apple_profile (JSON_stringify_table stringified) ?user (Obj ?claims) = Inr p"
    and fields: "own p ''provider'' = Str ''apple''" "own p ''id'' = own (Obj ?claims) ''sub''"
      "own p ''emails'' = Arr [Obj [(''value'', own (Obj ?claims) ''email'')]]"
      "own p ''emailVerified'' = Bool (own (Obj ?claims) ''email_verified'' = Str ''true'')"
      "own p ''isPrivateEmail'' = Bool (own (Obj ?claims) ''is_private_email'' = Str ''true'')"
      "hasOwn p ''name'' = (truthy (own ?user ''lastName'') \<or> truthy (own ?user ''firstName''))"
      "hasOwn (own p ''name'') ''familyName'' = truthy (own ?user ''lastName'')"
      "truthy (own ?user ''firstName'') \<longrightarrow>
         own (own p ''name'') ''givenName'' = own ?user ''firstName''"
    by blast
  show ?thesis using fields by (simp add: p)
qed

lemma apple_profile_string_user:
  "apple_profile JSON_stringify (Str s) jwtClaims = apple_profile JSON_stringify Undefined jwtClaims"
  by (simp add: apple_profile_def js_or_def)

lemma apple_userProfile_string_user:
  "apple_userProfile self jwt_verify JSON_stringify
     (Obj [(''identityToken'', token), (''user'', Str s)]) cb =
   apple_userProfile self jwt_verify JSON_stringify
     (Obj [(''identityToken'', token), (''user'', Undefined)]) cb"
  by (simp add: apple_userProfile_def getProp_def bindE_def apple_profile_string_user cong: if_cong)

text \<open>
  Claim C8. A \<open>user\<close> that is a string on which \<open>JSON.parse\<close> throws stays that string,
  and \<open>userProfile\<close> does with it what it does without user data, whatever the
  verification of the token reports: the string causes no outcome of its own. When the
  request carries an identity token and the verification reports no error,
  \<open>authenticate\<close> goes on to the application's verify function with no outcome before
  that call; the profile it passes has no \<open>name\<close>, and it is the profile of a request
  without user data.
\<close>

theorem malformed_user_is_absent:
  "apple_userProfile self jwt_verify JSON_stringify
     (Obj [(''identityToken'', token), (''user'', Str s)]) cb =
   apple_userProfile self jwt_verify JSON_stringify
     (Obj [(''identityToken'', token), (''user'', Undefined)]) cb \<and>
   (first_read builtin req [''body'', ''query''] (identityTokenField self) = Some token \<and>
    first_supplied req [''body'', ''query''] ''user'' = Some (Str s) \<and>
    JSON_parse (Str s) = Inl e \<and> \<not> truthy err \<longrightarrow>
     (\<exists>profile.
        apple_authenticate self builtin JSON_parse
          (apple_userProfile self (jwt_yields err (Obj claims)) JSON_stringify) verify req =
        LoadUserProfile (Obj [(''identityToken'', token), (''user'', Str s)]) #
        JwtVerify token (Obj [(''audience'', clientID self),
                              (''issuer'', Str ''https://appleid.apple.com''),
                              (''algorithms'', Arr [Str ''RS256''])]) #
        VerifyCall ((if truthy (apple_passReqToCallback self) then [Obj req] else []) @
                    [Undefined, Undefined, profile]) #
        verify ((if truthy (apple_passReqToCallback self) then [Obj req] else []) @
                [Undefined, Undefined, profile]) verified \<and>
        \<not> hasOwn profile ''name'' \<and>
        apple_profile JSON_stringify Undefined (Obj claims) = Inr profile))"
proof (intro conjI impI)
  show "apple_userProfile self jwt_verify JSON_stringify
     (Obj [(''identityToken'', token), (''user'', Str s)]) cb =
   apple_userProfile self jwt_verify JSON_stringify
     (Obj [(''identityToken'', token), (''user'', Undefined)]) cb"
    by (rule apple_userProfile_string_user)
next
  assume a: "first_read builtin req [''body'', ''query''] (identityTokenField self) = Some token \<and>
   first_supplied req [''body'', ''query''] ''user'' = Some (Str s) \<and>
   JSON_parse (Str s) = Inl e \<and> \<not> truthy err"
  then have t: "first_read builtin req [''body'', ''query''] (identityTokenField self) = Some token"
    and u: "first_supplied req [''body'', ''query''] ''user'' = Some (Str s)"
    and j: "JSON_parse (Str s) = Inl e" and e: "\<not> truthy err"
    by simp_all
  from first_supplied2[OF u]
  have u0: "js_or (guarded (own (Obj req) ''body'') ''user'')
                  (guarded (own (Obj req) ''query'') ''user'') = Str s"
    by simp
  obtain profile where p: "apple_profile JSON_stringify (Str s) (Obj claims) = Inr profile"
    by (simp add: apple_profile_claims)
  then have p': "apple_profile JSON_stringify Undefined (Obj claims) = Inr profile"
    by (simp add: apple_profile_claims)
  have n: "\<not> hasOwn profile ''name''"
    using p by (auto simp add: apple_profile_claims Let_def)
  have "apple_authenticate self builtin JSON_parse
          (apple_userProfile self (jwt_yields err (Obj claims)) JSON_stringify) verify req =
        LoadUserProfile (Obj [(''identityToken'', token), (''user'', Str s)]) #
        JwtVerify token (Obj [(''audience'', clientID self),
                              (''issuer'', Str ''https://appleid.apple.com''),
                              (''algorithms'', Arr [Str ''RS256''])]) #
        VerifyCall ((if truthy (apple_passReqToCallback self) then [Obj req] else []) @
                    [Undefined, Undefined, profile]) #
        verify ((if truthy (apple_passReqToCallback self) then [Obj req] else []) @
                [Undefined, Undefined, profile]) verified"
    by (simp add: apple_authenticate_token[OF t] u0 j Let_def apple_userProfile_success[OF e p]
        del: own.simps)
  with n p' show "\<exists>profile.
        apple_authenticate self builtin JSON_parse
          (apple_userProfile self (jwt_yields err (Obj claims)) JSON_stringify) verify req =
        LoadUserProfile (Obj [(''identityToken'', token), (''user'', Str s)]) #
        JwtVerify token (Obj [(''audience'', clientID self),
                              (''issuer'', Str ''https://appleid.apple.com''),
                              (''algorithms'', Arr [Str ''RS256''])]) #
        VerifyCall ((if truthy (apple_passReqToCallback self) then [Obj req] else []) @
                    [Undefined, Undefined, profile]) #
        verify ((if truthy (apple_passReqToCallback self) then [Obj req] else []) @
                [Undefined, Undefined, profile]) verified \<and>
        \<not> hasOwn profile ''name'' \<and>
        apple_profile JSON_stringify Undefined (Obj claims) = Inr profile"
    by blast
qed

theorem malformed_user_is_absent_witness:
  "apple_authenticate apple Object_prototype (JSON_parse_table [])
     (apple_userProfile apple (jwt_yields Null (Obj [(''sub'', Str ''001'')])) (JSON_stringify_table stringified))
     verify_next
     [(''body'', Obj [(''id_token'', Str ''id_token''), (''user'', Str ''{firstName:'')])] =
   [LoadUserProfile (Obj [(''identityToken'', Str ''id_token''), (''user'', Str ''{firstName:'')]),
    JwtVerify (Str ''id_token'')
      (Obj [(''audience'', Str ''123''), (''issuer'', Str ''https://appleid.apple.com''),
            (''algorithms'', Arr [Str ''RS256''])]),
    VerifyCall [Undefined, Undefined,
      Obj [(''provider'', Str ''apple''), (''id'', Str ''001''),
           (''emails'', Arr [Obj [(''value'', Undefined)]]),
           (''emailVerified'', Bool False), (''isPrivateEmail'', Bool False),
           (''_raw'', sub_text), (''_json'', Obj [(''sub'', Str ''001'')])]],
    Succeeded
      (Obj [(''provider'', Str ''apple''), (''id'', Str ''001''),
            (''emails'', Arr [Obj [(''value'', Undefined)]]),
            (''emailVerified'', Bool False), (''isPrivateEmail'', Bool False),
            (''_raw'', sub_text), (''_json'', Obj [(''sub'', Str ''001'')])])
      (Obj [(''info'', Str ''foo'')])]"
proof -
  let ?req = "[(''body'', Obj [(''id_token'', Str ''id_token''), (''user'', Str ''{firstName:'')])]"
  have h: "first_read Object_prototype ?req [''body'', ''query''] (identityTokenField apple) = Some (Str ''id_token'') \<and>
      first_supplied ?req [''body'', ''query''] ''user'' = Some (Str ''{firstName:'') \<and>
      JSON_parse_table [] (Str ''{firstName:'') = Inl SyntaxError \<and> \<not> truthy Null"
    by (simp add: first_read_def readable_def readProp_def Object_prototype_def
        first_supplied_def supplied_def apple_def JSON_parse_table_def)
  from malformed_user_is_absent[where req = ?req and self = apple and token = "Str ''id_token''"
      and builtin = Object_prototype
      and s = "''{firstName:''" and JSON_parse = "JSON_parse_table []" and e = SyntaxError
      and err = Null and claims = "[(''sub'', Str ''001'')]" and JSON_stringify = "JSON_stringify_table stringified"
      and verify = verify_next, THEN conjunct2, THEN mp, OF h]
  obtain profile where
    run: "apple_authenticate apple Object_prototype (JSON_parse_table [])
          (apple_userProfile apple (jwt_yields Null (Obj [(''sub'', Str ''001'')])) (JSON_stringify_table stringified))
          verify_next ?req =
        LoadUserProfile (Obj [(''identityToken'', Str ''id_token''), (''user'', Str ''{firstName:'')]) #
        JwtVerify (Str ''id_token'') (Obj [(''audience'', clientID apple),
                              (''issuer'', Str ''https://appleid.apple.com''),
                              (''algorithms'', Arr [Str ''RS256''])]) #
        VerifyCall ((if truthy (apple_passReqToCallback apple) then [Obj ?req] else []) @
                    [Undefined, Undefined, profile]) #
        verify_next ((if truthy (apple_passReqToCallback apple) then [Obj ?req] else []) @
                [Undefined, Undefined, profile]) verified"
    and p: "apple_profile (JSON_stringify_table stringified) Undefined (Obj [(''sub'', Str ''001'')]) = Inr profile"
    by blast
  from p have "profile = Obj [(''provider'', Str ''apple''), (''id'', Str ''001''),
            (''emails'', Arr [Obj [(''value'', Undefined)]]),
            (''emailVerified'', Bool False), (''isPrivateEmail'', Bool False),
            (''_raw'', sub_text), (''_json'', Obj [(''sub'', Str ''001'')])]"
    by (simp add: apple_profile_claims stringify_sub)
  with run show ?thesis
    by (simp add: apple_def verify_next_def verified_def)
qed

section \<open>Defaults of the profile\<close>

lemma js_or_default: "js_or v (Str s) \<noteq> Undefined \<and> js_or v (Str s) \<noteq> Null"
  by (cases v) (simp_all add: js_or_def)

lemma dot2_Inr:
  "dot2 json a b = Inr x \<Longrightarrow>
   json \<noteq> Undefined \<and> json \<noteq> Null \<and> own json a \<noteq> Undefined \<and> own json a \<noteq> Null \<and>
   x = own (own json a) b"
  by (auto simp add: dot2_def getProp_def bindE_def split: if_splits)

lemma own_defined_obj: "own json a \<noteq> Undefined \<Longrightarrow> \<exists>kvs. json = Obj kvs"
  by (cases json) simp_all

lemma dot2_put:
  "a \<noteq> k \<Longrightarrow> dot2 (Obj (put k v kvs)) a b = dot2 (Obj kvs) a b"
  by (simp add: dot2_def getProp_def map_of_put)

lemma parseProfile_Inr:
  assumes "parseProfile JSON_parse body = Inr profile"
  shows "\<exists>payload. JSON_parse body = Inr (Obj payload) \<and>
           own (Obj payload) ''data'' \<noteq> Undefined \<and> own (Obj payload) ''data'' \<noteq> Null \<and>
           profile =
             Obj [(''provider'', Str ''instagram''),
               (''id'', own (own (Obj payload) ''data'') ''id''),
               (''username'', own (own (Obj payload) ''data'') ''username''),
               (''displayName'', js_or (own (own (Obj payload) ''data'') ''full_name'') (Str [])),
               (''name'', Obj [(''familyName'', js_or (own (own (Obj payload) ''data'') ''last_name'') (Str [])),
                               (''givenName'', js_or (own (own (Obj payload) ''data'') ''first_name'') (Str []))]),
               (''emails'', Arr []),
               (''photos'', Arr [Obj [(''value'', own (own (Obj payload) ''data'') ''profile_picture'')]]),
               (''_raw'', body),
               (''_json'', Obj (put ''id'' (own (own (Obj payload) ''data'') ''id'') payload))]"
proof -
  from assms obtain json where j: "JSON_parse body = Inr json"
    by (cases "JSON_parse body") (simp_all add: parseProfile_def bindE_def)
  from assms j obtain i where i: "dot2 json ''data'' ''id'' = Inr i"
    by (cases "dot2 json ''data'' ''id''") (simp_all add: parseProfile_def bindE_def)
  from dot2_Inr[OF i] have nn: "own json ''data'' \<noteq> Undefined" "own json ''data'' \<noteq> Null"
    and iv: "i = own (own json ''data'') ''id''"
    by simp_all
  from own_defined_obj[OF nn(1)] obtain payload where p: "json = Obj payload" by blast
  have d: "\<And>k. dot2 (Obj payload) ''data'' k = Inr (own (own (Obj payload) ''data'') k)"
    using nn p by (simp add: dot2_def getProp_def bindE_def del: own.simps)
  have gi: "\<And>v. getProp (Obj (put ''id'' v payload)) ''id'' = Inr v"
    by (simp add: getProp_def map_of_put)
  have "parseProfile JSON_parse body =
     Inr (Obj [(''provider'', Str ''instagram''),
               (''id'', own (own (Obj payload) ''data'') ''id''),
               (''username'', own (own (Obj payload) ''data'') ''username''),
               (''displayName'', js_or (own (own (Obj payload) ''data'') ''full_name'') (Str [])),
               (''name'', Obj [(''familyName'', js_or (own (own (Obj payload) ''data'') ''last_name'') (Str [])),
                               (''givenName'', js_or (own (own (Obj payload) ''data'') ''first_name'') (Str []))]),
               (''emails'', Arr []),
               (''photos'', Arr [Obj [(''value'', own (own (Obj payload) ''data'') ''profile_picture'')]]),
               (''_raw'', body),
               (''_json'', Obj (put ''id'' (own (own (Obj payload) ''data'') ''id'') payload))])"
    unfolding parseProfile_def
    using iv p
    by (simp add: j dot2_put d gi bindE_def Let_def del: own.simps)
  with assms nn p j show ?thesis by auto
qed


lemma apple_profile_Inr:
  assumes "apple_profile JSON_stringify user jwtClaims = Inr aprofile"
  shows "aprofile =
     (let profile = Obj [(''provider'', Str ''apple''),
                        (''id'', own jwtClaims ''sub''),
                        (''emails'', Arr [Obj [(''value'', own jwtClaims ''email'')]]),
                        (''emailVerified'', Bool (own jwtClaims ''email_verified'' = Str ''true'')),
                        (''isPrivateEmail'', Bool (own jwtClaims ''is_private_email'' = Str ''true'')),
                        (''_raw'', JSON_stringify jwtClaims),
                        (''_json'', jwtClaims)]
      in if truthy (own user ''lastName'') \<or> truthy (own user ''firstName'')
         then assign profile ''name''
                (Obj ((if truthy (own user ''lastName'')
                       then [(''familyName'', own user ''lastName'')] else []) @
                      (if truthy (own user ''firstName'')
                       then [(''givenName'', own user ''firstName'')] else [])))
         else profile)"
proof -
  have nn: "jwtClaims \<noteq> Undefined \<and> jwtClaims \<noteq> Null"
    using assms by (auto simp add: apple_profile_def getProp_def bindE_def)
  have u: "(truthy user \<and> truthy (js_or (own user ''lastName'') (own user ''firstName''))) =
           (truthy (own user ''lastName'') \<or> truthy (own user ''firstName''))"
    using own_truthy_obj[of user "''lastName''"] own_truthy_obj[of user "''firstName''"]
    by (auto simp add: truthy_js_or)
  have g: "getProp jwtClaims ''sub'' = Inr (own jwtClaims ''sub'')"
    using nn by (simp add: getProp_def)
  from assms have "Inr aprofile = apple_profile JSON_stringify user jwtClaims" by simp
  also have "\<dots> = Inr (let profile = Obj [(''provider'', Str ''apple''),
                        (''id'', own jwtClaims ''sub''),
                        (''emails'', Arr [Obj [(''value'', own jwtClaims ''email'')]]),
                        (''emailVerified'', Bool (own jwtClaims ''email_verified'' = Str ''true'')),
                        (''isPrivateEmail'', Bool (own jwtClaims ''is_private_email'' = Str ''true'')),
                        (''_raw'', JSON_stringify jwtClaims),
                        (''_json'', jwtClaims)]
      in if truthy (own user ''lastName'') \<or> truthy (own user ''firstName'')
         then assign profile ''name''
                (Obj ((if truthy (own user ''lastName'')
                       then [(''familyName'', own user ''lastName'')] else []) @
                      (if truthy (own user ''firstName'')
                       then [(''givenName'', own user ''firstName'')] else [])))
         else profile)"
    unfolding apple_profile_def g bindE_def u
    by (simp add: Let_def del: own.simps)
  finally show ?thesis by simp
qed

text \<open>
  Claim C9, as the code has it. In every profile of the OAuth2 normalizer, \<open>id\<close>,
  \<open>username\<close> and the value of the one photo are \<open>data.id\<close>, \<open>data.username\<close> and
  \<open>data.profile_picture\<close> as the provider sent them; \<open>displayName\<close> and the two
  components of \<open>name\<close> are the provider's value when it is truthy and the empty string
  otherwise, so they are never null or undefined; \<open>emails\<close> is the empty list. In every
  profile of the Apple normalizer, \<open>id\<close> is the \<open>sub\<close> claim, \<open>emails\<close> has one entry
  holding the \<open>email\<close> claim as it is, the two flags are booleans, and \<open>name\<close> is there
  exactly when a name was supplied.
\<close>

theorem profile_defaults:
  "(parseProfile JSON_parse body = Inr profile \<longrightarrow>
      (\<exists>payload.
         JSON_parse body = Inr (Obj payload) \<and>
         own profile ''id'' = own (own (Obj payload) ''data'') ''id'' \<and>
         own profile ''username'' = own (own (Obj payload) ''data'') ''username'' \<and>
         own profile ''photos'' =
           Arr [Obj [(''value'', own (own (Obj payload) ''data'') ''profile_picture'')]] \<and>
         own profile ''displayName'' =
           js_or (own (own (Obj payload) ''data'') ''full_name'') (Str []) \<and>
         own (own profile ''name'') ''familyName'' =
           js_or (own (own (Obj payload) ''data'') ''last_name'') (Str []) \<and>
         own (own profile ''name'') ''givenName'' =
           js_or (own (own (Obj payload) ''data'') ''first_name'') (Str [])) \<and>
      own profile ''displayName'' \<noteq> Undefined \<and> own profile ''displayName'' \<noteq> Null \<and>
      own (own profile ''name'') ''familyName'' \<noteq> Undefined \<and>
      own (own profile ''name'') ''familyName'' \<noteq> Null \<and>
      own (own profile ''name'') ''givenName'' \<noteq> Undefined \<and>
      own (own profile ''name'') ''givenName'' \<noteq> Null \<and>
      own profile ''emails'' = Arr []) \<and>
   (apple_profile JSON_stringify user jwtClaims = Inr aprofile \<longrightarrow>
      own aprofile ''id'' = own jwtClaims ''sub'' \<and>
      own aprofile ''emails'' = Arr [Obj [(''value'', own jwtClaims ''email'')]] \<and>
      (\<exists>b. own aprofile ''emailVerified'' = Bool b) \<and>
      (\<exists>b. own aprofile ''isPrivateEmail'' = Bool b) \<and>
      hasOwn aprofile ''name'' = (truthy (own user ''lastName'') \<or> truthy (own user ''firstName'')))"
proof (intro conjI impI)
  assume a: "apple_profile JSON_stringify user jwtClaims = Inr aprofile"
  note f = apple_profile_Inr[OF a]
  show "own aprofile ''id'' = own jwtClaims ''sub''"
    by (simp add: f Let_def map_of_put)
  show "own aprofile ''emails'' = Arr [Obj [(''value'', own jwtClaims ''email'')]]"
    by (simp add: f Let_def map_of_put)
  show "\<exists>b. own aprofile ''emailVerified'' = Bool b"
    by (simp add: f Let_def map_of_put)
  show "\<exists>b. own aprofile ''isPrivateEmail'' = Bool b"
    by (simp add: f Let_def map_of_put)
  show "hasOwn aprofile ''name'' = (truthy (own user ''lastName'') \<or> truthy (own user ''firstName''))"
    by (simp add: f Let_def map_of_put)
next
  assume a: "parseProfile JSON_parse body = Inr profile"
  from parseProfile_Inr[OF a] obtain payload where j: "JSON_parse body = Inr (Obj payload)"
    and p: "profile =
             Obj [(''provider'', Str ''instagram''),
               (''id'', own (own (Obj payload) ''data'') ''id''),
               (''username'', own (own (Obj payload) ''data'') ''username''),
               (''displayName'', js_or (own (own (Obj payload) ''data'') ''full_name'') (Str [])),
               (''name'', Obj [(''familyName'', js_or (own (own (Obj payload) ''data'') ''last_name'') (Str [])),
                               (''givenName'', js_or (own (own (Obj payload) ''data'') ''first_name'') (Str []))]),
               (''emails'', Arr []),
               (''photos'', Arr [Obj [(''value'', own (own (Obj payload) ''data'') ''profile_picture'')]]),
               (''_raw'', body),
               (''_json'', Obj (put ''id'' (own (own (Obj payload) ''data'') ''id'') payload))]"
    by blast
  have f: "own profile ''id'' = own (own (Obj payload) ''data'') ''id''"
      "own profile ''username'' = own (own (Obj payload) ''data'') ''username''"
      "own profile ''photos'' =
           Arr [Obj [(''value'', own (own (Obj payload) ''data'') ''profile_picture'')]]"
      "own profile ''displayName'' =
           js_or (own (own (Obj payload) ''data'') ''full_name'') (Str [])"
      "own (own profile ''name'') ''familyName'' =
           js_or (own (own (Obj payload) ''data'') ''last_name'') (Str [])"
      "own (own profile ''name'') ''givenName'' =
           js_or (own (own (Obj payload) ''data'') ''first_name'') (Str [])"
    by (simp_all add: p)
  from j f show "\<exists>payload.
         JSON_parse body = Inr (Obj payload) \<and>
         own profile ''id'' = own (own (Obj payload) ''data'') ''id'' \<and>
         own profile ''username'' = own (own (Obj payload) ''data'') ''username'' \<and>
         own profile ''photos'' =
           Arr [Obj [(''value'', own (own (Obj payload) ''data'') ''profile_picture'')]] \<and>
         own profile ''displayName'' =
           js_or (own (own (Obj payload) ''data'') ''full_name'') (Str []) \<and>
         own (own profile ''name'') ''familyName'' =
           js_or (own (own (Obj payload) ''data'') ''last_name'') (Str []) \<and>
         own (own profile ''name'') ''givenName'' =
           js_or (own (own (Obj payload) ''data'') ''first_name'') (Str [])"
    by blast
  show "own profile ''displayName'' \<noteq> Undefined" "own profile ''displayName'' \<noteq> Null"
    "own (own profile ''name'') ''familyName'' \<noteq> Undefined"
    "own (own profile ''name'') ''familyName'' \<noteq> Null"
    "own (own profile ''name'') ''givenName'' \<noteq> Undefined"
    "own (own profile ''name'') ''givenName'' \<noteq> Null"
    by (simp_all add: f js_or_default del: own.simps)
  show "own profile ''emails'' = Arr []" by (simp add: p)
qed


theorem profile_defaults_witness:
  "(case parseProfile (JSON_parse_table [(data_id_text,
                                          Obj [(''data'', Obj [(''id'', Str ''1234567'')])])])
          data_id_text of
      Inr p \<Rightarrow> [own p ''id'', own p ''displayName'', own (own p ''name'') ''familyName'',
                 own (own p ''name'') ''givenName'', own p ''emails'']
    | Inl e \<Rightarrow> []) =
     [Str ''1234567'', Str [], Str [], Str [], Arr []] \<and>
   (case apple_profile (JSON_stringify_table stringified) Undefined (Obj [(''sub'', Str ''001'')]) of
      Inr p \<Rightarrow> [own p ''id'', own p ''emailVerified'', Bool (hasOwn p ''name'')]
    | Inl e \<Rightarrow> []) =
     [Str ''001'', Bool False, Bool False]"
proof -
  let ?P = "JSON_parse_table [(data_id_text,
                               Obj [(''data'', Obj [(''id'', Str ''1234567'')])])]"
  let ?body = "data_id_text"
  obtain p where p: "parseProfile ?P ?body = Inr p"
    by (simp add: parseProfile_def JSON_parse_table_def bindE_def dot2_def getProp_def Let_def)
  obtain q where q: "apple_profile (JSON_stringify_table stringified) Undefined (Obj [(''sub'', Str ''001'')]) = Inr q"
    by (simp add: apple_profile_claims)
  from profile_defaults[where JSON_parse = ?P and body = ?body and profile = p,
      THEN conjunct1, THEN mp, OF p]
  obtain payload where "?P ?body = Inr (Obj payload)"
    and "own p ''id'' = own (own (Obj payload) ''data'') ''id''"
    and "own p ''displayName'' = js_or (own (own (Obj payload) ''data'') ''full_name'') (Str [])"
    and "own (own p ''name'') ''familyName'' =
           js_or (own (own (Obj payload) ''data'') ''last_name'') (Str [])"
    and "own (own p ''name'') ''givenName'' =
           js_or (own (own (Obj payload) ''data'') ''first_name'') (Str [])"
    and "own p ''emails'' = Arr []"
    by blast
  then have 1: "[own p ''id'', own p ''displayName'', own (own p ''name'') ''familyName'',
                 own (own p ''name'') ''givenName'', own p ''emails''] =
     [Str ''1234567'', Str [], Str [], Str [], Arr []]"
    by (auto simp add: JSON_parse_table_def js_or_def)
  from profile_defaults[where JSON_stringify = "JSON_stringify_table stringified" and user = Undefined
      and jwtClaims = "Obj [(''sub'', Str ''001'')]" and aprofile = q,
      THEN conjunct2, THEN mp, OF q]
  have "own q ''id'' = own (Obj [(''sub'', Str ''001'')]) ''sub''"
    and "hasOwn q ''name'' = (truthy (own Undefined ''lastName'') \<or> truthy (own Undefined ''firstName''))"
    by blast+
  moreover have "own q ''emailVerified'' = Bool False"
    using q by (auto simp add: apple_profile_claims)
  ultimately have 2: "[own q ''id'', own q ''emailVerified'', Bool (hasOwn q ''name'')] =
     [Str ''001'', Bool False, Bool False]"
    by simp
  show ?thesis using 1 2 by (simp add: p q)
qed

text \<open>
  Claim C9 as it is written lets no field of a profile be null or undefined. A response
  whose \<open>data\<close> has an \<open>id\<close> only gives a profile with an undefined \<open>username\<close> and an
  undefined photo value; claims with a \<open>sub\<close> only give an Apple profile with an
  undefined email value and no \<open>name\<close>.
\<close>

theorem undefined_fields_counterexample:
  "parseProfile (JSON_parse_table [(data_id_text,
                                    Obj [(''data'', Obj [(''id'', Str ''1234567'')])])])
     data_id_text =
     Inr (Obj [(''provider'', Str ''instagram''),
               (''id'', Str ''1234567''),
               (''username'', Undefined),
               (''displayName'', Str []),
               (''name'', Obj [(''familyName'', Str []), (''givenName'', Str [])]),
               (''emails'', Arr []),
               (''photos'', Arr [Obj [(''value'', Undefined)]]),
               (''_raw'', data_id_text),
               (''_json'', Obj [(''data'', Obj [(''id'', Str ''1234567'')]),
                                (''id'', Str ''1234567'')])]) \<and>
   apple_profile (JSON_stringify_table stringified) Undefined (Obj [(''sub'', Str ''001'')]) =
     Inr (Obj [(''provider'', Str ''apple''),
               (''id'', Str ''001''),
               (''emails'', Arr [Obj [(''value'', Undefined)]]),
               (''emailVerified'', Bool False),
               (''isPrivateEmail'', Bool False),
               (''_raw'', sub_text),
               (''_json'', Obj [(''sub'', Str ''001'')])])"
  by (simp add: parseProfile_def JSON_parse_table_def bindE_def dot2_def getProp_def Let_def
      js_or_def apple_profile_def stringify_sub)

section \<open>The options after construction\<close>

text \<open>
  Claim C10. The constructors work on the caller's options object. After the constructor
  of \<open>src/index.js\<close>, an \<open>authorizationURL\<close> or \<open>tokenURL\<close> that was missing (or falsy)
  holds the default URL of Instagram; after the constructor of \<open>lib/Strategy.js\<close> the
  same holds for these two and for \<open>profileURL\<close>. Every other property, and each of
  these properties that had a truthy value, is as it was. This holds whether or not the
  constructor of the base class throws afterwards.
\<close>

theorem construct_writes_defaults:
  "(\<not> truthy (own (Obj opts) ''authorizationURL'') \<longrightarrow>
      own (Obj (fst (construct base (Some opts)))) ''authorizationURL'' =
        Str ''https://api.instagram.com/oauth/authorize/'') \<and>
   (\<not> truthy (own (Obj opts) ''tokenURL'') \<longrightarrow>
      own (Obj (fst (construct base (Some opts)))) ''tokenURL'' =
        Str ''https://api.instagram.com/oauth/access_token'') \<and>
   (\<forall>k. (k \<noteq> ''authorizationURL'' \<and> k \<noteq> ''tokenURL'') \<or> truthy (own (Obj opts) k) \<longrightarrow>
      map_of (fst (construct base (Some opts))) k = map_of opts k) \<and>
   (\<not> truthy (own (Obj opts) ''authorizationURL'') \<longrightarrow>
      own (Obj (fst (lib_construct base (Some opts)))) ''authorizationURL'' =
        Str ''https://api.instagram.com/oauth/authorize/'') \<and>
   (\<not> truthy (own (Obj opts) ''tokenURL'') \<longrightarrow>
      own (Obj (fst (lib_construct base (Some opts)))) ''tokenURL'' =
        Str ''https://api.instagram.com/oauth/access_token'') \<and>
   (\<not> truthy (own (Obj opts) ''profileURL'') \<longrightarrow>
      own (Obj (fst (lib_construct base (Some opts)))) ''profileURL'' =
        Str ''https://api.instagram.com/v1/users/self'') \<and>
   (\<forall>k. (k \<noteq> ''authorizationURL'' \<and> k \<noteq> ''tokenURL'' \<and> k \<noteq> ''profileURL'') \<or>
        truthy (own (Obj opts) k) \<longrightarrow>
      map_of (fst (lib_construct base (Some opts))) k = map_of opts k)"
  by (auto simp add: construct_def lib_construct_def Let_def map_of_put js_or_def
      split: option.splits)

theorem construct_writes_defaults_witness:
  "fst (construct base_ok (Some STRATEGY_CONFIG)) =
     [(''clientID'', Str ''123''), (''clientSecret'', Str ''123''),
      (''authorizationURL'', Str ''https://api.instagram.com/oauth/authorize/''),
      (''tokenURL'', Str ''https://api.instagram.com/oauth/access_token'')] \<and>
   fst (lib_construct base_ok (Some STRATEGY_CONFIG)) =
     [(''clientID'', Str ''123''), (''clientSecret'', Str ''123''),
      (''authorizationURL'', Str ''https://api.instagram.com/oauth/authorize/''),
      (''tokenURL'', Str ''https://api.instagram.com/oauth/access_token''),
      (''profileURL'', Str ''https://api.instagram.com/v1/users/self'')] \<and>
   map_of (fst (construct base_ok (Some STRATEGY_CONFIG))) ''clientSecret'' = Some (Str ''123'')"
  using construct_writes_defaults[where opts = STRATEGY_CONFIG and base = base_ok]
  by (simp add: construct_def lib_construct_def STRATEGY_CONFIG_def Let_def js_or_def)

end
